theory Spec2Isabelle
  imports Main "HOL-Library.Sublist"
begin

section \<open>JavaScript values read by \<^verbatim>\<open>bin/create-dotfiles.ts\<close>\<close>

text \<open>
  The program reads its inputs with \<^verbatim>\<open>JSON.parse\<close> and never checks their shape: the
  interfaces \<^verbatim>\<open>CloudFormationTemplate\<close> and \<^verbatim>\<open>CloudFormationResource\<close> are compile-time
  annotations only. The model therefore works on every value \<^verbatim>\<open>JSON.parse\<close> can return.

  \<^item> A string is the list of its code units.
  \<^item> A number is kept as the text that ECMAScript's number-to-string conversion gives for
    it: the program never calculates with a number, it only prints it or tests whether it is
    zero (whose text is \<^verbatim>\<open>0\<close>, also for the negative zero).
  \<^item> An object is the list of its own properties in the order \<^verbatim>\<open>for ... in\<close> and
    \<^verbatim>\<open>Object.keys\<close> enumerate them. The keys of an object are pairwise distinct. That
    order is not the order in which the properties were inserted: \<open>parsedObject\<close> below
    gives the object that results from inserting a list of members.
  \<^item> \<^verbatim>\<open>undefined\<close> is no JSON value: the result of reading a property is a
    \<open>json option\<close>, with \<open>None\<close> for \<^verbatim>\<open>undefined\<close>.
\<close>

datatype json =
    JNull
  | JBool bool
  | JNum string
  | JStr string
  | JArr "json list"
  | JObj "(string \<times> json) list"

datatype error =
    ReadError string
  | SyntaxError
  | TypeError
  | WriteError string

text \<open>
  Reading a property \<^verbatim>\<open>v.k\<close>. On \<^verbatim>\<open>null\<close> it raises a TypeError. The property names the
  program reads (\<^verbatim>\<open>Resources\<close>, \<^verbatim>\<open>Type\<close>, \<^verbatim>\<open>Properties\<close>, \<^verbatim>\<open>DependsOn\<close>,
  \<^verbatim>\<open>artifacts\<close>, \<^verbatim>\<open>type\<close>, \<^verbatim>\<open>properties\<close>, \<^verbatim>\<open>file\<close>) are defined by no prototype, and
  they are neither an index nor \<^verbatim>\<open>length\<close>, so on a boolean, a number, a string or an array
  the read gives \<^verbatim>\<open>undefined\<close>, and on an object the own property if there is one.
\<close>

fun js_get :: "json \<Rightarrow> string \<Rightarrow> error + json option" where
  "js_get JNull k = Inl TypeError"
| "js_get (JObj props) k = Inr (map_of props k)"
| "js_get v k = Inr None"

text \<open>The decimal text of an array or string index.\<close>

fun string_of_nat :: "nat \<Rightarrow> string" where
  "string_of_nat n =
     (if n < 10 then [char_of (48 + n)]
      else string_of_nat (n div 10) @ [char_of (48 + n mod 10)])"

declare string_of_nat.simps [simp del]

definition index_keys :: "nat \<Rightarrow> string list" where
  "index_keys n = map string_of_nat [0..<n]"

text \<open>
  The own enumerable properties of a value, as \<^verbatim>\<open>for (const k in v)\<close> visits them, each
  with the value \<^verbatim>\<open>v[k]\<close> the loop body reads: nothing for \<^verbatim>\<open>undefined\<close>, \<^verbatim>\<open>null\<close>, a
  boolean or a number; the indices of a string (with its one-unit substrings) or of an
  array; the properties of an object.
\<close>

fun for_in :: "json option \<Rightarrow> (string \<times> json) list" where
  "for_in (Some (JObj props)) = props"
| "for_in (Some (JArr xs)) = zip (index_keys (length xs)) xs"
| "for_in (Some (JStr s)) = zip (index_keys (length s)) (map (\<lambda>c. JStr [c]) s)"
| "for_in v = []"

text \<open>\<^verbatim>\<open>Object.keys(v)\<close>: a TypeError on \<^verbatim>\<open>undefined\<close> and \<^verbatim>\<open>null\<close>, else the own keys.\<close>

fun Object_keys :: "json option \<Rightarrow> error + string list" where
  "Object_keys None = Inl TypeError"
| "Object_keys (Some JNull) = Inl TypeError"
| "Object_keys (Some v) = Inr (map fst (for_in (Some v)))"

text \<open>
  The conversion to a string that a template literal \<^verbatim>\<open>${v}\<close> and \<^verbatim>\<open>v + "..."\<close> apply.
  An array is joined with commas, \<^verbatim>\<open>null\<close> elements giving the empty string. A parsed
  object has the prototype's \<^verbatim>\<open>toString\<close> unless it has an own property of that name,
  which (being JSON, so not callable) leaves no way to a primitive: a TypeError.
\<close>

fun js_to_string :: "json \<Rightarrow> error + string"
  and js_join :: "json list \<Rightarrow> error + string" where
  "js_to_string JNull = Inr ''null''"
| "js_to_string (JBool b) = Inr (if b then ''true'' else ''false'')"
| "js_to_string (JNum n) = Inr n"
| "js_to_string (JStr s) = Inr s"
| "js_to_string (JArr xs) = js_join xs"
| "js_to_string (JObj props) =
     (case map_of props ''toString'' of
        Some f \<Rightarrow> Inl TypeError
      | None \<Rightarrow> Inr ''[object Object]'')"
| "js_join [] = Inr []"
| "js_join (x # xs) =
     (case (case x of JNull \<Rightarrow> Inr [] | _ \<Rightarrow> js_to_string x) of
        Inl e \<Rightarrow> Inl e
      | Inr s \<Rightarrow>
          (case xs of
             [] \<Rightarrow> Inr s
           | _ \<Rightarrow> (case js_join xs of Inl e \<Rightarrow> Inl e | Inr r \<Rightarrow> Inr (s @ '','' @ r))))"

fun js_string_of :: "json option \<Rightarrow> error + string" where
  "js_string_of None = Inr ''undefined''"
| "js_string_of (Some v) = js_to_string v"

text \<open>The truth value of a value in a condition.\<close>

fun js_truthy :: "json option \<Rightarrow> bool" where
  "js_truthy None = False"
| "js_truthy (Some JNull) = False"
| "js_truthy (Some (JBool b)) = b"
| "js_truthy (Some (JNum n)) = (n \<noteq> ''0'')"
| "js_truthy (Some (JStr s)) = (s \<noteq> [])"
| "js_truthy (Some (JArr xs)) = True"
| "js_truthy (Some (JObj props)) = True"

text \<open>
  The order of the own properties of an object. A property name is an array index when it is
  the decimal text, without a leading zero, of an integer below \<open>2\<^sup>3\<^sup>2 - 1\<close>. An object
  enumerates its array indices first, in ascending numeric order, and then its other names
  in the order of their creation; this is the order of \<^verbatim>\<open>for ... in\<close> and of
  \<^verbatim>\<open>Object.keys\<close>. Defining a name the object already has replaces the value and keeps
  the place of the name.
\<close>

definition isDigit :: "char \<Rightarrow> bool" where
  "isDigit c \<longleftrightarrow> (48::nat) \<le> of_char c \<and> (of_char c :: nat) \<le> 57"

definition nat_of_digits :: "string \<Rightarrow> nat" where
  "nat_of_digits s = foldl (\<lambda>n c. 10 * n + (of_char c - 48)) 0 s"

definition arrayIndex :: "string \<Rightarrow> nat option" where
  "arrayIndex s =
     (case s of
        [] \<Rightarrow> None
      | c # cs \<Rightarrow>
          if list_all isDigit s \<and> (c \<noteq> CHR ''0'' \<or> cs = []) \<and> nat_of_digits s < 4294967295
          then Some (nat_of_digits s)
          else None)"

definition isArrayIndex :: "string \<times> json \<Rightarrow> bool" where
  "isArrayIndex property \<longleftrightarrow> arrayIndex (fst property) \<noteq> None"

definition indexValue :: "string \<times> json \<Rightarrow> nat" where
  "indexValue property = (case arrayIndex (fst property) of None \<Rightarrow> 0 | Some n \<Rightarrow> n)"

fun defineProperty :: "(string \<times> json) list \<Rightarrow> string \<times> json \<Rightarrow> (string \<times> json) list" where
  "defineProperty [] property = [property]"
| "defineProperty (p # ps) property =
     (if fst p = fst property then property # ps else p # defineProperty ps property)"

definition createdOrder :: "(string \<times> json) list \<Rightarrow> (string \<times> json) list" where
  "createdOrder members = foldl defineProperty [] members"

definition ownProperties :: "(string \<times> json) list \<Rightarrow> (string \<times> json) list" where
  "ownProperties created =
     sort_key indexValue (filter isArrayIndex created)
       @ filter (\<lambda>property. \<not> isArrayIndex property) created"

text \<open>
  The object that \<^verbatim>\<open>JSON.parse\<close> returns for the text of an object whose members are, in
  the order of the text, \<open>members\<close>.
\<close>

definition parsedObject :: "(string \<times> json) list \<Rightarrow> json" where
  "parsedObject members = JObj (ownProperties (createdOrder members))"


section \<open>\<^verbatim>\<open>createDotFile\<close>\<close>

definition metadataType :: string where
  "metadataType = ''AWS::CDK::Metadata''"

definition dotHeader :: string where
  \<open>dotHeader =
     ''digraph Resources {\<newline>node [shape=box fontname="Avenir, Helvetica" fontsize=10];''\<close>

definition dotFooter :: string where
  "dotFooter = ''}\<newline>''"

text \<open>
  \<^verbatim>\<open>Object.keys(resource.Properties).forEach((key) => { label += `\n${key}` })\<close>:
  \<open>label\<close> starts as the value of \<^verbatim>\<open>resource.Type\<close>, whatever it is, and is a string
  after the first key.
\<close>

fun appendKeys :: "json option \<Rightarrow> string list \<Rightarrow> error + json option" where
  "appendKeys label [] = Inr label"
| "appendKeys label (key # keys) =
     (case js_string_of label of
        Inl e \<Rightarrow> Inl e
      | Inr s \<Rightarrow> appendKeys (Some (JStr (s @ ''\<newline>'' @ key))) keys)"

text \<open>\<^verbatim>\<open>for (const dependency of resource.DependsOn) dotFile += ...\<close>\<close>

fun appendEdges :: "string \<Rightarrow> string \<Rightarrow> json list \<Rightarrow> error + string" where
  "appendEdges dotFile resourceNameWithQuotes [] = Inr dotFile"
| \<open>appendEdges dotFile resourceNameWithQuotes (dependency # rest) =
     (case js_to_string dependency of
        Inl e \<Rightarrow> Inl e
      | Inr d \<Rightarrow>
          appendEdges (dotFile @ ''  '' @ resourceNameWithQuotes @ '' -> "'' @ d @ ''";\<newline>'')
            resourceNameWithQuotes rest)\<close>

text \<open>
  The body of the loop over \<^verbatim>\<open>template.Resources\<close>, from the document so far to the
  document after this resource; \<^verbatim>\<open>continue\<close> returns the document unchanged.
\<close>

definition renderResource :: "string \<Rightarrow> string \<Rightarrow> json \<Rightarrow> error + string" where
  \<open>renderResource dotFile resourceName resource =
     (let resourceNameWithQuotes = ''"'' @ resourceName @ ''"'' in
      case js_get resource ''Type'' of
        Inl e \<Rightarrow> Inl e
      | Inr label \<Rightarrow>
          if label = Some (JStr metadataType) then Inr dotFile
          else
            (case js_get resource ''Properties'' of
               Inl e \<Rightarrow> Inl e
             | Inr properties \<Rightarrow>
                 (case Object_keys properties of
                    Inl e \<Rightarrow> Inl e
                  | Inr keys \<Rightarrow>
                      (case appendKeys label keys of
                         Inl e \<Rightarrow> Inl e
                       | Inr label' \<Rightarrow>
                           (case js_string_of label' of
                              Inl e \<Rightarrow> Inl e
                            | Inr labelText \<Rightarrow>
                                (let dotFile' =
                                   dotFile @ ''  '' @ resourceNameWithQuotes
                                     @ '' [label="'' @ labelText @ ''"];\<newline>''
                                 in
                                 case js_get resource ''DependsOn'' of
                                   Inl e \<Rightarrow> Inl e
                                 | Inr (Some (JArr dependsOn)) \<Rightarrow>
                                     appendEdges dotFile' resourceNameWithQuotes dependsOn
                                 | Inr other \<Rightarrow> Inr dotFile'))))))\<close>

fun renderResources :: "string \<Rightarrow> (string \<times> json) list \<Rightarrow> error + string" where
  "renderResources dotFile [] = Inr dotFile"
| "renderResources dotFile ((resourceName, resource) # rest) =
     (case renderResource dotFile resourceName resource of
        Inl e \<Rightarrow> Inl e
      | Inr dotFile' \<Rightarrow> renderResources dotFile' rest)"

definition createDotFile :: "json \<Rightarrow> error + string" where
  "createDotFile template =
     (case js_get template ''Resources'' of
        Inl e \<Rightarrow> Inl e
      | Inr resources \<Rightarrow>
          (case renderResources dotHeader (for_in resources) of
             Inl e \<Rightarrow> Inl e
           | Inr dotFile \<Rightarrow> Inr (dotFile @ dotFooter)))"


section \<open>The declarations of a document\<close>

text \<open>
  The document is text, and a resource name, a label or a dependency may itself contain
  quotes, arrows and line breaks, so the declarations cannot be read back from the text
  without ambiguity. The claims about node and edge declarations are therefore stated on
  the list of declarations the loop appends, each appended piece being the text of one
  declaration (lines 99 and 103 of the source). Lemma \<open>createDotFile_decls\<close> ties
  this list to the text \<open>createDotFile\<close> returns.
\<close>

datatype decl =
    NodeDecl string string
  | EdgeDecl string string

fun showDecl :: "decl \<Rightarrow> string" where
  \<open>showDecl (NodeDecl name label) =
     ''  '' @ (''"'' @ name @ ''"'') @ '' [label="'' @ label @ ''"];\<newline>''\<close>
| \<open>showDecl (EdgeDecl name dependency) =
     ''  '' @ (''"'' @ name @ ''"'') @ '' -> "'' @ dependency @ ''";\<newline>''\<close>

fun isNode :: "decl \<Rightarrow> bool" where
  "isNode (NodeDecl name label) = True"
| "isNode (EdgeDecl name dependency) = False"

fun isEdge :: "decl \<Rightarrow> bool" where
  "isEdge (NodeDecl name label) = False"
| "isEdge (EdgeDecl name dependency) = True"

fun declName :: "decl \<Rightarrow> string" where
  "declName (NodeDecl name label) = name"
| "declName (EdgeDecl name dependency) = name"

text \<open>A list of fallible steps, stopping at the first error.\<close>

fun mapE :: "('a \<Rightarrow> error + 'b) \<Rightarrow> 'a list \<Rightarrow> error + 'b list" where
  "mapE f [] = Inr []"
| "mapE f (x # xs) =
     (case f x of
        Inl e \<Rightarrow> Inl e
      | Inr y \<Rightarrow> (case mapE f xs of Inl e \<Rightarrow> Inl e | Inr ys \<Rightarrow> Inr (y # ys)))"

text \<open>The resources the loop visits, in its order, and what it reads of each.\<close>

definition resources :: "json \<Rightarrow> (string \<times> json) list" where
  "resources template =
     (case js_get template ''Resources'' of Inl e \<Rightarrow> [] | Inr rs \<Rightarrow> for_in rs)"

definition isMetadata :: "json \<Rightarrow> bool" where
  "isMetadata resource \<longleftrightarrow> js_get resource ''Type'' = Inr (Some (JStr metadataType))"

definition propertyKeys :: "json \<Rightarrow> error + string list" where
  "propertyKeys resource =
     (case js_get resource ''Properties'' of
        Inl e \<Rightarrow> Inl e
      | Inr properties \<Rightarrow> Object_keys properties)"

definition dependsOn :: "json \<Rightarrow> json list" where
  "dependsOn resource =
     (case js_get resource ''DependsOn'' of
        Inr (Some (JArr ds)) \<Rightarrow> ds
      | _ \<Rightarrow> [])"

definition keyLines :: "string list \<Rightarrow> string" where
  "keyLines keys = concat (map (\<lambda>key. ''\<newline>'' @ key) keys)"

definition labelOf :: "json \<Rightarrow> error + string" where
  "labelOf resource =
     (case js_get resource ''Type'' of
        Inl e \<Rightarrow> Inl e
      | Inr ty \<Rightarrow>
          (case propertyKeys resource of
             Inl e \<Rightarrow> Inl e
           | Inr keys \<Rightarrow>
               (case js_string_of ty of
                  Inl e \<Rightarrow> Inl e
                | Inr s \<Rightarrow> Inr (s @ keyLines keys))))"

definition resourceDecls :: "string \<times> json \<Rightarrow> error + decl list" where
  "resourceDecls entry =
     (case js_get (snd entry) ''Type'' of
        Inl e \<Rightarrow> Inl e
      | Inr ty \<Rightarrow>
          if ty = Some (JStr metadataType) then Inr []
          else
            (case labelOf (snd entry) of
               Inl e \<Rightarrow> Inl e
             | Inr label \<Rightarrow>
                 (case mapE js_to_string (dependsOn (snd entry)) of
                    Inl e \<Rightarrow> Inl e
                  | Inr ds \<Rightarrow> Inr (NodeDecl (fst entry) label # map (EdgeDecl (fst entry)) ds))))"

definition decls :: "json \<Rightarrow> error + decl list" where
  "decls template =
     (case js_get template ''Resources'' of
        Inl e \<Rightarrow> Inl e
      | Inr rs \<Rightarrow>
          (case mapE resourceDecls (for_in rs) of
             Inl e \<Rightarrow> Inl e
           | Inr dss \<Rightarrow> Inr (concat dss)))"

definition showDecls :: "decl list \<Rightarrow> string" where
  "showDecls ds = dotHeader @ concat (map showDecl ds) @ dotFooter"


section \<open>Files and the console\<close>

text \<open>
  The file system as the program sees it: \<open>files w p\<close> is the text
  \<^verbatim>\<open>fs.readFileSync(p, 'utf8')\<close> returns, \<open>None\<close> where it throws; \<open>console w\<close> is what
  \<^verbatim>\<open>console.error\<close> has printed. \<^verbatim>\<open>JSON.parse\<close> and \<^verbatim>\<open>path.join\<close> belong to the
  platform and are parameters: a \<open>parser\<close> gives \<open>None\<close> where \<^verbatim>\<open>JSON.parse\<close> throws a
  SyntaxError.

  \<^verbatim>\<open>fs.writeFileSync(p, data)\<close> opens the file for writing, which creates it or cuts it to
  length zero, then writes the data, then closes the file. \<open>faults w p\<close> says how a write
  to \<open>p\<close> fails, if it does: at the open (the file cannot be created or opened), which
  leaves the files as they were, or after the open, when only the first \<open>n\<close> code units of
  the data have reached the file, which leaves the file with that beginning of the data
  (the empty file for \<open>n = 0\<close>).
\<close>

datatype fault =
    OpenFails
  | WriteFailsAfter nat

record world =
  files :: "string \<Rightarrow> string option"
  faults :: "string \<Rightarrow> fault option"
  console :: "error list"

type_synonym parser = "string \<Rightarrow> json option"
type_synonym joiner = "string \<Rightarrow> string \<Rightarrow> string"

definition readFileSync :: "world \<Rightarrow> string \<Rightarrow> error + string" where
  "readFileSync w path =
     (case files w path of None \<Rightarrow> Inl (ReadError path) | Some data \<Rightarrow> Inr data)"

definition JSON_parse :: "parser \<Rightarrow> string \<Rightarrow> error + json" where
  "JSON_parse parse data =
     (case parse data of None \<Rightarrow> Inl SyntaxError | Some v \<Rightarrow> Inr v)"

text \<open>
  A statement with effects gives the exception that left it, if any, and the world it left
  behind.
\<close>

definition writeFileSync :: "world \<Rightarrow> string \<Rightarrow> string \<Rightarrow> error option \<times> world" where
  "writeFileSync w path data =
     (case faults w path of
        None \<Rightarrow> (None, w\<lparr>files := (files w)(path \<mapsto> data)\<rparr>)
      | Some OpenFails \<Rightarrow> (Some (WriteError path), w)
      | Some (WriteFailsAfter n) \<Rightarrow>
          (Some (WriteError path), w\<lparr>files := (files w)(path \<mapsto> take n data)\<rparr>))"


section \<open>\<^verbatim>\<open>createDotFiles\<close>\<close>

text \<open>
  The callback of \<^verbatim>\<open>artifacts.forEach\<close>: read, parse, render, then write. Nothing in it
  catches an exception.
\<close>

definition decodeTemplate :: "parser \<Rightarrow> world \<Rightarrow> string \<Rightarrow> error + json" where
  "decodeTemplate parse w artifactPath =
     (case readFileSync w artifactPath of
        Inl e \<Rightarrow> Inl e
      | Inr data \<Rightarrow> JSON_parse parse data)"

definition createDotFilesStep :: "parser \<Rightarrow> string \<Rightarrow> world \<Rightarrow> error option \<times> world" where
  "createDotFilesStep parse artifactPath w =
     (case decodeTemplate parse w artifactPath of
        Inl e \<Rightarrow> (Some e, w)
      | Inr template \<Rightarrow>
          (case createDotFile template of
             Inl e \<Rightarrow> (Some e, w)
           | Inr dotFile \<Rightarrow> writeFileSync w (artifactPath @ ''.dot'') dotFile))"

text \<open>An exception in a callback ends \<^verbatim>\<open>forEach\<close> and \<^verbatim>\<open>createDotFiles\<close>.\<close>

fun createDotFiles :: "parser \<Rightarrow> string list \<Rightarrow> world \<Rightarrow> error option \<times> world" where
  "createDotFiles parse [] w = (None, w)"
| "createDotFiles parse (artifactPath # rest) w =
     (case createDotFilesStep parse artifactPath w of
        (Some e, w') \<Rightarrow> (Some e, w')
      | (None, w') \<Rightarrow> createDotFiles parse rest w')"


section \<open>\<^verbatim>\<open>getArtifactsFromManifest\<close>\<close>

text \<open>\<^verbatim>\<open>s.replace(/assets/g, 'template')\<close>: every match, scanning from the left.\<close>

function replaceAssets :: "string \<Rightarrow> string" where
  "replaceAssets [] = []"
| "replaceAssets (c # cs) =
     (if prefix ''assets'' (c # cs) then ''template'' @ replaceAssets (drop 6 (c # cs))
      else c # replaceAssets cs)"
  by pat_completeness auto
termination
  by (relation "measure length") auto

definition cdkDir :: "joiner \<Rightarrow> string" where
  "cdkDir join = join ''.'' ''cdk.out''"

definition manifestPath :: "joiner \<Rightarrow> string" where
  "manifestPath join = join (cdkDir join) ''manifest.json''"

text \<open>
  The test of the loop: \<^verbatim>\<open>artifact.type === 'cdk:asset-manifest' && artifact.properties &&
  artifact.properties.file\<close>, which raises on a \<^verbatim>\<open>null\<close> artifact.
\<close>

definition isTemplateArtifact :: "json \<Rightarrow> error + bool" where
  "isTemplateArtifact artifact =
     (case js_get artifact ''type'' of
        Inl e \<Rightarrow> Inl e
      | Inr ty \<Rightarrow>
          if ty \<noteq> Some (JStr ''cdk:asset-manifest'') then Inr False
          else
            (case js_get artifact ''properties'' of
               Inl e \<Rightarrow> Inl e
             | Inr None \<Rightarrow> Inr False
             | Inr (Some properties) \<Rightarrow>
                 if \<not> js_truthy (Some properties) then Inr False
                 else
                   (case js_get properties ''file'' of
                      Inl e \<Rightarrow> Inl e
                    | Inr file \<Rightarrow> Inr (js_truthy file))))"

text \<open>
  \<^verbatim>\<open>artifact.properties.file\<close>, read again for the path, and its \<^verbatim>\<open>replace\<close>: only a
  string has that method.
\<close>

definition artifactFile :: "json \<Rightarrow> error + json option" where
  "artifactFile artifact =
     (case js_get artifact ''properties'' of
        Inl e \<Rightarrow> Inl e
      | Inr None \<Rightarrow> Inl TypeError
      | Inr (Some properties) \<Rightarrow> js_get properties ''file'')"

definition templatePath :: "joiner \<Rightarrow> json \<Rightarrow> error + string" where
  "templatePath join artifact =
     (case artifactFile artifact of
        Inr (Some (JStr file)) \<Rightarrow> Inr (join (cdkDir join) (replaceAssets file))
      | Inl e \<Rightarrow> Inl e
      | Inr other \<Rightarrow> Inl TypeError)"

fun collectArtifacts :: "joiner \<Rightarrow> string list \<Rightarrow> (string \<times> json) list \<Rightarrow> error + string list" where
  "collectArtifacts join artifacts [] = Inr artifacts"
| "collectArtifacts join artifacts ((key, artifact) # rest) =
     (case isTemplateArtifact artifact of
        Inl e \<Rightarrow> Inl e
      | Inr False \<Rightarrow> collectArtifacts join artifacts rest
      | Inr True \<Rightarrow>
          (case templatePath join artifact of
             Inl e \<Rightarrow> Inl e
           | Inr path \<Rightarrow> collectArtifacts join (artifacts @ [path]) rest))"

text \<open>The body of the \<^verbatim>\<open>try\<close> block.\<close>

definition readArtifacts :: "joiner \<Rightarrow> parser \<Rightarrow> string \<Rightarrow> world \<Rightarrow> error + string list" where
  "readArtifacts join parse filePath w =
     (case readFileSync w filePath of
        Inl e \<Rightarrow> Inl e
      | Inr manifestData \<Rightarrow>
          (case JSON_parse parse manifestData of
             Inl e \<Rightarrow> Inl e
           | Inr manifest \<Rightarrow>
               (case js_get manifest ''artifacts'' of
                  Inl e \<Rightarrow> Inl e
                | Inr artifacts \<Rightarrow> collectArtifacts join [] (for_in artifacts))))"

definition getArtifactsFromManifest ::
    "joiner \<Rightarrow> parser \<Rightarrow> string \<Rightarrow> world \<Rightarrow> string list \<times> world" where
  "getArtifactsFromManifest join parse filePath w =
     (case readArtifacts join parse filePath w of
        Inl error \<Rightarrow> ([], w\<lparr>console := console w @ [error]\<rparr>)
      | Inr artifacts \<Rightarrow> (artifacts, w))"

text \<open>The program: \<^verbatim>\<open>createDotFiles(getArtifactsFromManifest(manifestPath))\<close>.\<close>

definition program :: "joiner \<Rightarrow> parser \<Rightarrow> world \<Rightarrow> error option \<times> world" where
  "program join parse w =
     (case getArtifactsFromManifest join parse (manifestPath join) w of
        (artifacts, w') \<Rightarrow> createDotFiles parse artifacts w')"


text \<open>The artifacts the loop over \<^verbatim>\<open>manifest.artifacts\<close> visits, and the file of one.\<close>

definition artifactEntries :: "json \<Rightarrow> (string \<times> json) list" where
  "artifactEntries manifest =
     (case js_get manifest ''artifacts'' of Inl e \<Rightarrow> [] | Inr artifacts \<Rightarrow> for_in artifacts)"

definition fileName :: "json \<Rightarrow> string" where
  "fileName artifact =
     (case artifactFile artifact of Inr (Some (JStr file)) \<Rightarrow> file | _ \<Rightarrow> [])"


section \<open>Shapes of templates\<close>

text \<open>
  The resources that get a node: those the loop does not skip as
  \<^verbatim>\<open>AWS::CDK::Metadata\<close>.
\<close>

definition renderedResources :: "json \<Rightarrow> (string \<times> json) list" where
  "renderedResources template = filter (\<lambda>entry. \<not> isMetadata (snd entry)) (resources template)"

text \<open>
  The dependencies the loop over \<^verbatim>\<open>DependsOn\<close> visits, each with the name of its
  resource, in the order of the visits.
\<close>

definition dependencyPairs :: "json \<Rightarrow> (string \<times> json) list" where
  "dependencyPairs template =
     concat (map (\<lambda>entry. map (Pair (fst entry)) (dependsOn (snd entry)))
       (renderedResources template))"

text \<open>
  What the interface \<^verbatim>\<open>CloudFormationResource\<close> declares of the fields the renderer
  reads: \<^verbatim>\<open>Type: string\<close>, \<^verbatim>\<open>Properties: Record<string, object>\<close> and
  \<^verbatim>\<open>DependsOn?: string[]\<close>; and \<^verbatim>\<open>Resources: Record<string, CloudFormationResource>\<close>
  of \<^verbatim>\<open>CloudFormationTemplate\<close>.
\<close>

fun isString :: "json \<Rightarrow> bool" where
  "isString (JStr s) = True"
| "isString v = False"

definition typedResource :: "json \<Rightarrow> bool" where
  "typedResource resource =
     (case js_get resource ''Type'' of
        Inr (Some (JStr ty)) \<Rightarrow>
          (case js_get resource ''Properties'' of
             Inr (Some (JObj properties)) \<Rightarrow>
               (case js_get resource ''DependsOn'' of
                  Inr None \<Rightarrow> True
                | Inr (Some (JArr ds)) \<Rightarrow> list_all isString ds
                | _ \<Rightarrow> False)
           | _ \<Rightarrow> False)
      | _ \<Rightarrow> False)"

definition typedTemplate :: "json \<Rightarrow> bool" where
  "typedTemplate template =
     (case js_get template ''Resources'' of
        Inr (Some (JObj rs)) \<Rightarrow> list_all (\<lambda>entry. typedResource (snd entry)) rs
      | _ \<Rightarrow> False)"

text \<open>
  What two templates that differ only in the values of resource properties have in common:
  whether reading \<^verbatim>\<open>Resources\<close> raises, and of every resource, in order, its name, its
  \<^verbatim>\<open>Type\<close>, the keys of its \<^verbatim>\<open>Properties\<close> and its \<^verbatim>\<open>DependsOn\<close> list.
\<close>

definition resourceShape ::
    "string \<times> json \<Rightarrow> string \<times> (error + json option) \<times> (error + string list) \<times> json list" where
  "resourceShape entry =
     (fst entry, js_get (snd entry) ''Type'', propertyKeys (snd entry), dependsOn (snd entry))"

definition templateShape ::
    "json \<Rightarrow> bool \<times> (string \<times> (error + json option) \<times> (error + string list) \<times> json list) list" where
  "templateShape template = (template = JNull, map resourceShape (resources template))"


section \<open>Example inputs\<close>

text \<open>
  The spec's example manifest, with the \<^verbatim>\<open>Properties\<close> the interface requires:
  \<^verbatim>\<open>{"Resources": {"A": {"Type": "X", "Properties": {}, "DependsOn": ["B"]},
  "B": {"Type": "Y", "Properties": {}}}}\<close>.
\<close>

definition exampleTemplate :: json where
  "exampleTemplate =
     JObj [(''Resources'', JObj
       [(''A'', JObj [(''Type'', JStr ''X''), (''Properties'', JObj []),
                      (''DependsOn'', JArr [JStr ''B''])]),
        (''B'', JObj [(''Type'', JStr ''Y''), (''Properties'', JObj [])])])]"

text \<open>\<^verbatim>\<open>{"Resources": {"A": {"Type": "X"}}}\<close>: a resource without \<^verbatim>\<open>Properties\<close>.\<close>

definition bareTemplate :: json where
  "bareTemplate = JObj [(''Resources'', JObj [(''A'', JObj [(''Type'', JStr ''X'')])])]"

text \<open>
  \<^verbatim>\<open>{"Resources": {"Meta": {"Type": "AWS::CDK::Metadata"}, "Q": {"Type": "AWS::SQS::Queue",
  "Properties": {"QueueName": v}, "DependsOn": ["Gone"]}}}\<close>: a metadata resource, and a queue
  with one property of value \<open>v\<close> that depends on a name the template does not define.
\<close>

definition queueTemplate :: "json \<Rightarrow> json" where
  "queueTemplate v =
     JObj [(''Resources'', JObj
       [(''Meta'', JObj [(''Type'', JStr ''AWS::CDK::Metadata'')]),
        (''Q'', JObj [(''Type'', JStr ''AWS::SQS::Queue''),
                      (''Properties'', JObj [(''QueueName'', v)]),
                      (''DependsOn'', JArr [JStr ''Gone''])])])]"

text \<open>
  A parser and a join for the examples. They agree with \<^verbatim>\<open>JSON.parse\<close> and
  \<^verbatim>\<open>path.join\<close> on the arguments the examples give them: the texts of the table,
  the text \<^verbatim>\<open>oops\<close> (no JSON), and plain relative path segments.
\<close>

definition emptyTemplateText :: string where
  \<open>emptyTemplateText = ''{"Resources":{}}''\<close>

definition exampleTemplateText :: string where
  \<open>exampleTemplateText =
     ''{"Resources":{"A":{"Type":"X","Properties":{},"DependsOn":["B"]},"B":{"Type":"Y","Properties":{}}}}''\<close>

definition emptyFileIndexText :: string where
  \<open>emptyFileIndexText =
     ''{"artifacts":{"a":{"type":"cdk:asset-manifest","properties":{"file":""}}}}''\<close>

definition emptyFileIndex :: json where
  "emptyFileIndex =
     JObj [(''artifacts'', JObj
       [(''a'', JObj [(''type'', JStr ''cdk:asset-manifest''),
                      (''properties'', JObj [(''file'', JStr [])])])])]"

definition stackIndexText :: string where
  \<open>stackIndexText =
     ''{"artifacts":{"Tree":{"type":"cdk:tree","properties":{"file":"tree.json"}},"S.assets":{"type":"cdk:asset-manifest","properties":{"file":"S.assets.json"}}}}''\<close>

definition stackIndex :: json where
  "stackIndex =
     JObj [(''artifacts'', JObj
       [(''Tree'', JObj [(''type'', JStr ''cdk:tree''),
                         (''properties'', JObj [(''file'', JStr ''tree.json'')])]),
        (''S.assets'', JObj [(''type'', JStr ''cdk:asset-manifest''),
                             (''properties'', JObj [(''file'', JStr ''S.assets.json'')])])])]"

definition sampleParse :: parser where
  "sampleParse =
     map_of
       [(emptyTemplateText, JObj [(''Resources'', JObj [])]),
        (exampleTemplateText, exampleTemplate),
        (emptyFileIndexText, emptyFileIndex),
        (stackIndexText, stackIndex)]"

definition sampleJoin :: joiner where
  "sampleJoin a b = (if a = ''.'' then b else a @ ''/'' @ b)"

text \<open>
  A directory with two template files, the first of which is no JSON, where every write
  succeeds.
\<close>

definition brokenFirst :: world where
  "brokenFirst =
     \<lparr>files = map_of [(''a.json'', ''oops''), (''b.json'', emptyTemplateText)],
      faults = (\<lambda>p. None),
      console = []\<rparr>"

text \<open>
  A directory with two template files where a write to \<^verbatim>\<open>b.json.dot\<close> fails in the
  given way and every other write succeeds.
\<close>

definition secondWriteFails :: "fault \<Rightarrow> world" where
  "secondWriteFails f =
     \<lparr>files = map_of [(''a.json'', emptyTemplateText), (''b.json'', exampleTemplateText)],
      faults = (\<lambda>p. if p = ''b.json.dot'' then Some f else None),
      console = []\<rparr>"

text \<open>
  A resource of type \<^verbatim>\<open>T\<close> without properties, and the template whose resources are
  inserted under the names \<^verbatim>\<open>b\<close>, \<^verbatim>\<open>2\<close>, \<^verbatim>\<open>a\<close>, \<^verbatim>\<open>1\<close>, in this order:
  \<^verbatim>\<open>{"Resources": {"b": r, "2": r, "a": r, "1": r}}\<close> with
  \<^verbatim>\<open>r = {"Type": "T", "Properties": {}}\<close>.
\<close>

definition plainResource :: json where
  "plainResource = JObj [(''Type'', JStr ''T''), (''Properties'', JObj [])]"

definition mixedNames :: "(string \<times> json) list" where
  "mixedNames =
     [(''b'', plainResource), (''2'', plainResource), (''a'', plainResource),
      (''1'', plainResource)]"

definition mixedTemplate :: json where
  "mixedTemplate = JObj [(''Resources'', parsedObject mixedNames)]"

text \<open>A \<^verbatim>\<open>cdk.out\<close> holding only the index with the given text.\<close>

definition indexOnly :: "string \<Rightarrow> world" where
  "indexOnly data =
     \<lparr>files = map_of [(''cdk.out/manifest.json'', data)],
      faults = (\<lambda>p. None),
      console = []\<rparr>"


section \<open>The text of a document and its declarations\<close>

lemma mapE_D: "mapE f xs = Inr ys \<Longrightarrow> list_all2 (\<lambda>x y. f x = Inr y) xs ys"
  by (induction xs arbitrary: ys) (auto split: sum.splits)

lemma appendKeys_text:
  "(case appendKeys label keys of Inl e \<Rightarrow> Inl e | Inr l \<Rightarrow> js_string_of l) =
   (case js_string_of label of Inl e \<Rightarrow> Inl e | Inr s \<Rightarrow> Inr (s @ keyLines keys))"
  by (induction keys arbitrary: label) (auto simp: keyLines_def split: sum.splits)

lemma appendEdges_mapE:
  \<open>appendEdges dotFile q deps =
     (case mapE js_to_string deps of
        Inl e \<Rightarrow> Inl e
      | Inr ds \<Rightarrow> Inr (dotFile @ concat (map (\<lambda>d. ''  '' @ q @ '' -> "'' @ d @ ''";\<newline>'') ds)))\<close>
  by (induction deps arbitrary: dotFile) (auto split: sum.splits)

lemma js_get_Inl: "js_get r k = Inl e \<longleftrightarrow> r = JNull \<and> e = TypeError"
  by (cases r) auto

lemma js_get_Inr_not_null: "js_get r k = Inr v \<Longrightarrow> r \<noteq> JNull"
  by (cases r) auto

lemma dependsOn_cases:
  assumes "r \<noteq> JNull"
  shows "(case js_get r ''DependsOn'' of
            Inl e \<Rightarrow> Inl e
          | Inr (Some (JArr deps)) \<Rightarrow> appendEdges acc q deps
          | Inr other \<Rightarrow> Inr acc) = appendEdges acc q (dependsOn r)"
proof (cases "js_get r ''DependsOn''")
  case (Inl e)
  with assms show ?thesis by (simp add: js_get_Inl)
next
  case (Inr d)
  then show ?thesis
    by (cases d; simp add: dependsOn_def split: json.splits)
qed

lemma renderResource_decls:
  "renderResource dotFile name r =
     (case resourceDecls (name, r) of
        Inl e \<Rightarrow> Inl e
      | Inr ds \<Rightarrow> Inr (dotFile @ concat (map showDecl ds)))"
proof (cases "js_get r ''Type''")
  case (Inl e)
  then show ?thesis by (simp add: renderResource_def resourceDecls_def)
next
  case (Inr label)
  then have nn: "r \<noteq> JNull" by (rule js_get_Inr_not_null)
  show ?thesis
  proof (cases "label = Some (JStr metadataType)")
    case True
    with Inr show ?thesis by (simp add: renderResource_def resourceDecls_def)
  next
    case False
    obtain properties where props: "js_get r ''Properties'' = Inr properties"
      using nn by (cases "js_get r ''Properties''") (auto simp: js_get_Inl)
    show ?thesis
    proof (cases "Object_keys properties")
      case (Inl e)
      with Inr False props show ?thesis
        by (simp add: renderResource_def resourceDecls_def labelOf_def propertyKeys_def)
    next
      case pk: (Inr keys)
      have lt: "(case appendKeys label keys of Inl e \<Rightarrow> Inl e | Inr l \<Rightarrow> js_string_of l) = labelOf r"
        using Inr pk props by (simp add: appendKeys_text labelOf_def propertyKeys_def)
      show ?thesis
      proof (cases "appendKeys label keys")
        case (Inl e)
        with lt have "labelOf r = Inl e" by simp
        with Inr False props pk Inl show ?thesis
          by (simp add: renderResource_def resourceDecls_def)
      next
        case ak: (Inr label')
        show ?thesis
        proof (cases "js_string_of label'")
          case (Inl e)
          with lt ak have "labelOf r = Inl e" by simp
          with Inr False props pk ak Inl show ?thesis
            by (simp add: renderResource_def resourceDecls_def)
        next
          case ls: (Inr labelText)
          with lt ak have lab: "labelOf r = Inr labelText" by simp
          have "renderResource dotFile name r =
                  appendEdges (dotFile @ showDecl (NodeDecl name labelText))
                    (CHR 0x22 # name @ [CHR 0x22]) (dependsOn r)"
            using Inr False props pk ak ls dependsOn_cases [OF nn]
            by (simp add: renderResource_def)
          also have "\<dots> = (case resourceDecls (name, r) of
                               Inl e \<Rightarrow> Inl e
                             | Inr ds \<Rightarrow> Inr (dotFile @ concat (map showDecl ds)))"
            using Inr False lab
            by (simp add: resourceDecls_def appendEdges_mapE comp_def split: sum.splits)
          finally show ?thesis .
        qed
      qed
    qed
  qed
qed

lemma renderResources_decls:
  "renderResources dotFile rs =
     (case mapE resourceDecls rs of
        Inl e \<Rightarrow> Inl e
      | Inr dss \<Rightarrow> Inr (dotFile @ concat (map showDecl (concat dss))))"
  by (induction rs arbitrary: dotFile) (auto simp: renderResource_decls split: sum.splits)

lemma createDotFile_decls:
  "createDotFile template =
     (case decls template of Inl e \<Rightarrow> Inl e | Inr ds \<Rightarrow> Inr (showDecls ds))"
  by (auto simp: createDotFile_def decls_def showDecls_def renderResources_decls split: sum.splits)


lemma mapE_total: "(\<And>x. x \<in> set xs \<Longrightarrow> \<exists>y. f x = Inr y) \<Longrightarrow> \<exists>ys. mapE f xs = Inr ys"
proof (induction xs)
  case Nil
  then show ?case by simp
next
  case (Cons x xs)
  then obtain y where "f x = Inr y" by auto
  moreover from Cons obtain ys where "mapE f xs = Inr ys" by auto
  ultimately show ?case by simp
qed

lemma mapE_strings: "list_all isString ds \<Longrightarrow> \<exists>ts. mapE js_to_string ds = Inr ts"
proof (rule mapE_total)
  fix x assume "list_all isString ds" "x \<in> set ds"
  then have "isString x" by (simp add: list_all_iff)
  then show "\<exists>y. js_to_string x = Inr y" by (cases x) auto
qed

lemma resourceDecls_Inr:
  assumes "resourceDecls (n, r) = Inr ds"
  shows "(isMetadata r \<and> ds = []) \<or>
         (\<not> isMetadata r \<and>
          (\<exists>label targets. labelOf r = Inr label
             \<and> mapE js_to_string (dependsOn r) = Inr targets
             \<and> ds = NodeDecl n label # map (EdgeDecl n) targets))"
  using assms
  by (auto simp: resourceDecls_def isMetadata_def split: sum.splits if_splits)

lemma resourceDecls_typed:
  assumes "typedResource r"
  shows "\<exists>ds. resourceDecls (n, r) = Inr ds"
proof -
  from assms obtain ty properties where
    ty: "js_get r ''Type'' = Inr (Some (JStr ty))" and
    pr: "js_get r ''Properties'' = Inr (Some (JObj properties))"
    by (auto simp: typedResource_def split: sum.splits option.splits json.splits)
  from assms ty pr have "list_all isString (dependsOn r)"
    by (auto simp: typedResource_def dependsOn_def split: sum.splits option.splits json.splits)
  then obtain ts where "mapE js_to_string (dependsOn r) = Inr ts"
    using mapE_strings by blast
  with ty pr show ?thesis
    by (simp add: resourceDecls_def labelOf_def propertyKeys_def)
qed

lemma decls_typed:
  assumes "typedTemplate template"
  shows "\<exists>ds. decls template = Inr ds"
proof -
  from assms obtain rs where
    rs: "js_get template ''Resources'' = Inr (Some (JObj rs))" and
    al: "list_all (\<lambda>entry. typedResource (snd entry)) rs"
    by (auto simp: typedTemplate_def split: sum.splits option.splits json.splits)
  have "\<exists>dss. mapE resourceDecls rs = Inr dss"
  proof (rule mapE_total)
    fix x assume "x \<in> set rs"
    with al have "typedResource (snd x)" by (simp add: list_all_iff)
    then show "\<exists>y. resourceDecls x = Inr y"
      using resourceDecls_typed [of "snd x" "fst x"] by simp
  qed
  with rs show ?thesis by (auto simp: decls_def)
qed

lemma decls_resources:
  "decls template = Inr ds \<Longrightarrow> \<exists>dss. mapE resourceDecls (resources template) = Inr dss \<and> ds = concat dss"
  by (auto simp: decls_def resources_def split: sum.splits)

lemma createDotFile_Inr:
  "createDotFile template = Inr dotFile \<longleftrightarrow> (\<exists>ds. decls template = Inr ds \<and> dotFile = showDecls ds)"
  by (auto simp: createDotFile_decls split: sum.splits)

lemma nodes_of_resources:
  "mapE resourceDecls rs = Inr dss \<Longrightarrow>
   map declName (filter isNode (concat dss)) = map fst (filter (\<lambda>entry. \<not> isMetadata (snd entry)) rs)"
proof (induction rs arbitrary: dss)
  case Nil
  then show ?case by simp
next
  case (Cons entry rs)
  obtain n r where entry: "entry = (n, r)" by (cases entry)
  from Cons.prems obtain ds dss' where
    ds: "resourceDecls (n, r) = Inr ds" and dss': "mapE resourceDecls rs = Inr dss'" and
    eq: "dss = ds # dss'"
    by (auto simp: entry split: sum.splits)
  have "filter isNode (map (EdgeDecl n) targets) = []" for targets
    by (induction targets) auto
  with resourceDecls_Inr [OF ds] Cons.IH [OF dss'] show ?case
    by (auto simp: eq entry)
qed

lemma edges_of_resources:
  "mapE resourceDecls rs = Inr dss \<Longrightarrow>
   list_all2 (\<lambda>pair e. \<exists>target. js_to_string (snd pair) = Inr target \<and> e = EdgeDecl (fst pair) target)
     (concat (map (\<lambda>entry. map (Pair (fst entry)) (dependsOn (snd entry)))
        (filter (\<lambda>entry. \<not> isMetadata (snd entry)) rs)))
     (filter isEdge (concat dss))"
proof (induction rs arbitrary: dss)
  case Nil
  then show ?case by simp
next
  case (Cons entry rs)
  obtain n r where entry: "entry = (n, r)" by (cases entry)
  from Cons.prems obtain ds dss' where
    ds: "resourceDecls (n, r) = Inr ds" and dss': "mapE resourceDecls rs = Inr dss'" and
    eq: "dss = ds # dss'"
    by (auto simp: entry split: sum.splits)
  have fe: "filter isEdge (map (EdgeDecl n) targets) = map (EdgeDecl n) targets" for targets
    by (induction targets) auto
  have one: "list_all2 (\<lambda>pair e. \<exists>target. js_to_string (snd pair) = Inr target \<and> e = EdgeDecl (fst pair) target)
               (map (Pair n) deps) (map (EdgeDecl n) targets)"
    if "mapE js_to_string deps = Inr targets" for deps targets
    using mapE_D [OF that] by (induction rule: list_all2_induct) auto
  from resourceDecls_Inr [OF ds] show ?case
  proof
    assume "isMetadata r \<and> ds = []"
    with Cons.IH [OF dss'] show ?thesis by (simp add: eq entry)
  next
    assume "\<not> isMetadata r \<and>
          (\<exists>label targets. labelOf r = Inr label
             \<and> mapE js_to_string (dependsOn r) = Inr targets
             \<and> ds = NodeDecl n label # map (EdgeDecl n) targets)"
    then obtain label targets where nm: "\<not> isMetadata r" and
      tg: "mapE js_to_string (dependsOn r) = Inr targets" and
      dsv: "ds = NodeDecl n label # map (EdgeDecl n) targets" by blast
    show ?thesis
      using nm one [OF tg] Cons.IH [OF dss']
      by (simp add: eq entry dsv fe list_all2_appendI)
  qed
qed


section \<open>Header and footer\<close>

lemma showDecls_prefix: "prefix dotHeader (showDecls ds)"
  by (simp add: showDecls_def)

lemma showDecls_suffix: "suffix dotFooter (showDecls ds)"
  by (simp add: showDecls_def suffix_def)

lemma createDotFile_no_resources:
  assumes "template \<noteq> JNull" and "resources template = []"
  shows "createDotFile template = Inr (dotHeader @ dotFooter)"
proof -
  from assms(1) obtain rs where rs: "js_get template ''Resources'' = Inr rs"
    by (cases "js_get template ''Resources''") (auto simp: js_get_Inl)
  with assms(2) have "for_in rs = []" by (simp add: resources_def)
  with rs show ?thesis by (simp add: createDotFile_def)
qed

text \<open>
  Claim C7. Whenever \<open>createDotFile\<close> returns a document, and it does for every template of
  the declared type, the document begins with the fixed header (\<^verbatim>\<open>digraph Resources {\<close> and
  the node styling statement) and ends with the closing brace and its line break; the two
  do not overlap. For a template without resources the document is the header directly
  followed by the closing brace.
\<close>

theorem createDotFile_header_footer:
  "(typedTemplate template \<longrightarrow> (\<exists>dotFile. createDotFile template = Inr dotFile))
   \<and> (\<forall>dotFile. createDotFile template = Inr dotFile \<longrightarrow>
         prefix dotHeader dotFile \<and> suffix dotFooter dotFile
         \<and> (\<exists>body. dotFile = dotHeader @ body @ dotFooter))
   \<and> (template \<noteq> JNull \<and> resources template = [] \<longrightarrow>
         createDotFile template = Inr (dotHeader @ dotFooter))"
proof (intro conjI impI allI)
  assume "typedTemplate template"
  then obtain ds where "decls template = Inr ds" using decls_typed by blast
  then show "\<exists>dotFile. createDotFile template = Inr dotFile"
    by (simp add: createDotFile_decls)
next
  fix dotFile assume "createDotFile template = Inr dotFile"
  then obtain ds where d: "dotFile = showDecls ds" by (auto simp: createDotFile_Inr)
  show "prefix dotHeader dotFile" by (simp add: d showDecls_prefix)
  show "suffix dotFooter dotFile" by (simp add: d showDecls_suffix)
  show "\<exists>body. dotFile = dotHeader @ body @ dotFooter"
    unfolding d showDecls_def by blast
next
  assume "template \<noteq> JNull \<and> resources template = []"
  then show "createDotFile template = Inr (dotHeader @ dotFooter)"
    by (simp add: createDotFile_no_resources)
qed

theorem createDotFile_header_footer_witness:
  \<open>typedTemplate exampleTemplate
   \<and> createDotFile exampleTemplate =
       Inr (dotHeader @ ''  "A" [label="X"];\<newline>  "A" -> "B";\<newline>  "B" [label="Y"];\<newline>'' @ dotFooter)
   \<and> prefix dotHeader
        (dotHeader @ ''  "A" [label="X"];\<newline>  "A" -> "B";\<newline>  "B" [label="Y"];\<newline>'' @ dotFooter)
   \<and> suffix dotFooter
        (dotHeader @ ''  "A" [label="X"];\<newline>  "A" -> "B";\<newline>  "B" [label="Y"];\<newline>'' @ dotFooter)
   \<and> JObj [(''Resources'', JObj [])] \<noteq> JNull
   \<and> resources (JObj [(''Resources'', JObj [])]) = []
   \<and> createDotFile (JObj [(''Resources'', JObj [])]) =
       Inr ''digraph Resources {\<newline>node [shape=box fontname="Avenir, Helvetica" fontsize=10];}\<newline>''\<close>
proof -
  have ty: "typedTemplate exampleTemplate"
    by (simp add: typedTemplate_def typedResource_def exampleTemplate_def)
  have ex: \<open>createDotFile exampleTemplate =
       Inr (dotHeader @ ''  "A" [label="X"];\<newline>  "A" -> "B";\<newline>  "B" [label="Y"];\<newline>'' @ dotFooter)\<close>
    by (simp add: createDotFile_def renderResource_def exampleTemplate_def metadataType_def)
  have em: "resources (JObj [(''Resources'', JObj [])]) = []"
    by (simp add: resources_def)
  show ?thesis
    using ty ex em createDotFile_header_footer [of exampleTemplate]
      createDotFile_header_footer [of "JObj [(''Resources'', JObj [])]"]
    by (simp add: dotHeader_def dotFooter_def)
qed


section \<open>Nodes\<close>

lemma decls_nodes:
  assumes "decls template = Inr ds"
  shows "map declName (filter isNode ds) = map fst (renderedResources template)"
proof -
  from decls_resources [OF assms] obtain dss where
    "mapE resourceDecls (resources template) = Inr dss" and "ds = concat dss" by blast
  then show ?thesis
    using nodes_of_resources by (simp add: renderedResources_def)
qed

lemma decls_edges:
  assumes "decls template = Inr ds"
  shows "list_all2 (\<lambda>pair e. \<exists>target. js_to_string (snd pair) = Inr target \<and> e = EdgeDecl (fst pair) target)
           (dependencyPairs template) (filter isEdge ds)"
proof -
  from decls_resources [OF assms] obtain dss where
    "mapE resourceDecls (resources template) = Inr dss" and "ds = concat dss" by blast
  then show ?thesis
    using edges_of_resources by (simp add: renderedResources_def dependencyPairs_def)
qed

lemma queueTemplate_decls:
  "decls (queueTemplate v) =
     Inr [NodeDecl ''Q'' ''AWS::SQS::Queue\<newline>QueueName'', EdgeDecl ''Q'' ''Gone'']"
  by (simp add: decls_def resourceDecls_def labelOf_def propertyKeys_def dependsOn_def
      keyLines_def queueTemplate_def metadataType_def)

lemma queueTemplate_text:
  \<open>createDotFile (queueTemplate v) =
     Inr (dotHeader @ ''  "Q" [label="AWS::SQS::Queue\<newline>QueueName"];\<newline>  "Q" -> "Gone";\<newline>'' @ dotFooter)\<close>
  by (simp add: createDotFile_decls queueTemplate_decls showDecls_def)

lemma queueTemplate_resources:
  "resources (queueTemplate v) =
     [(''Meta'', JObj [(''Type'', JStr ''AWS::CDK::Metadata'')]),
      (''Q'', JObj [(''Type'', JStr ''AWS::SQS::Queue''),
                    (''Properties'', JObj [(''QueueName'', v)]),
                    (''DependsOn'', JArr [JStr ''Gone''])])]"
  by (simp add: resources_def queueTemplate_def)

text \<open>
  Claim C5. In every document \<open>createDotFile\<close> returns, the number of node declarations is
  the number of resources minus the number of resources of type \<^verbatim>\<open>AWS::CDK::Metadata\<close>,
  and (the keys of the resource object being pairwise distinct) no node declaration carries
  the name of a resource of that type.
\<close>

theorem metadata_resources_have_no_node:
  assumes "createDotFile template = Inr dotFile"
  shows "\<exists>ds. decls template = Inr ds \<and> dotFile = showDecls ds
           \<and> length (filter isNode ds) =
               length (resources template)
                 - length (filter (\<lambda>entry. isMetadata (snd entry)) (resources template))
           \<and> (distinct (map fst (resources template)) \<longrightarrow>
                (\<forall>entry \<in> set (resources template). isMetadata (snd entry) \<longrightarrow>
                   (\<forall>d \<in> set ds. isNode d \<longrightarrow> declName d \<noteq> fst entry)))"
proof -
  from assms obtain ds where ds: "decls template = Inr ds" and dt: "dotFile = showDecls ds"
    by (auto simp: createDotFile_Inr)
  let ?rs = "resources template"
  have names: "map declName (filter isNode ds) = map fst (renderedResources template)"
    by (rule decls_nodes [OF ds])
  have "length (filter isNode ds) = length (renderedResources template)"
    using arg_cong [OF names, of length] by simp
  moreover have "length (renderedResources template)
                   + length (filter (\<lambda>entry. isMetadata (snd entry)) ?rs) = length ?rs"
    unfolding renderedResources_def
    using sum_length_filter_compl [of "\<lambda>entry. isMetadata (snd entry)" ?rs] by simp
  ultimately have count: "length (filter isNode ds) =
      length ?rs - length (filter (\<lambda>entry. isMetadata (snd entry)) ?rs)" by simp
  have none: "declName d \<noteq> fst entry"
    if dist: "distinct (map fst ?rs)" and en: "entry \<in> set ?rs" and me: "isMetadata (snd entry)"
      and d: "d \<in> set ds" and nd: "isNode d" for entry d
  proof
    assume eq: "declName d = fst entry"
    from d nd have "declName d \<in> set (map declName (filter isNode ds))" by simp
    with names obtain other where ot: "other \<in> set ?rs" and nm: "\<not> isMetadata (snd other)"
      and fo: "fst other = declName d"
      by (auto simp: renderedResources_def)
    from dist en ot eq fo have "entry = other"
      by (metis distinct_map inj_onD)
    with me nm show False by simp
  qed
  from ds dt count none show ?thesis by blast
qed

theorem metadata_resources_have_no_node_witness:
  \<open>createDotFile (queueTemplate (JStr ''jobs'')) =
     Inr (dotHeader @ ''  "Q" [label="AWS::SQS::Queue\<newline>QueueName"];\<newline>  "Q" -> "Gone";\<newline>'' @ dotFooter)
   \<and> decls (queueTemplate (JStr ''jobs'')) =
       Inr [NodeDecl ''Q'' ''AWS::SQS::Queue\<newline>QueueName'', EdgeDecl ''Q'' ''Gone'']
   \<and> length (filter isNode [NodeDecl ''Q'' ''AWS::SQS::Queue\<newline>QueueName'', EdgeDecl ''Q'' ''Gone'']) =
       length (resources (queueTemplate (JStr ''jobs'')))
         - length (filter (\<lambda>entry. isMetadata (snd entry)) (resources (queueTemplate (JStr ''jobs''))))
   \<and> length (resources (queueTemplate (JStr ''jobs''))) = 2
   \<and> map fst (filter (\<lambda>entry. isMetadata (snd entry)) (resources (queueTemplate (JStr ''jobs'')))) = [''Meta'']
   \<and> distinct (map fst (resources (queueTemplate (JStr ''jobs''))))\<close>
proof -
  note t = queueTemplate_text [of "JStr ''jobs''"]
  from metadata_resources_have_no_node [OF t] queueTemplate_decls [of "JStr ''jobs''"]
  have "length (filter isNode [NodeDecl ''Q'' ''AWS::SQS::Queue\<newline>QueueName'', EdgeDecl ''Q'' ''Gone'']) =
       length (resources (queueTemplate (JStr ''jobs'')))
         - length (filter (\<lambda>entry. isMetadata (snd entry)) (resources (queueTemplate (JStr ''jobs''))))"
    by auto
  then show ?thesis
    using t queueTemplate_decls [of "JStr ''jobs''"]
    by (simp add: queueTemplate_resources isMetadata_def metadataType_def)
qed


section \<open>Edges\<close>

lemma length_dependencyPairs:
  "length (dependencyPairs template) =
     sum_list (map (\<lambda>entry. length (dependsOn (snd entry))) (renderedResources template))"
  by (simp add: dependencyPairs_def length_concat comp_def)

lemma queueTemplate_pairs:
  "dependencyPairs (queueTemplate v) = [(''Q'', JStr ''Gone'')]"
  by (simp add: dependencyPairs_def renderedResources_def queueTemplate_resources
      isMetadata_def metadataType_def dependsOn_def)

text \<open>
  Claim C4. In every document \<open>createDotFile\<close> returns, the number of edge declarations is
  the sum of the lengths of the \<^verbatim>\<open>DependsOn\<close> lists of the resources that are not of type
  \<^verbatim>\<open>AWS::CDK::Metadata\<close>; the edges are, in the order of the resources and of their lists,
  one per dependency, from the resource to the text of the dependency; and a dependency that
  is a string is the target of its edge verbatim, whether or not the template has a resource
  of that name.
\<close>

theorem one_edge_per_dependency:
  assumes "createDotFile template = Inr dotFile"
  shows "\<exists>ds. decls template = Inr ds \<and> dotFile = showDecls ds
           \<and> length (filter isEdge ds) =
               sum_list (map (\<lambda>entry. length (dependsOn (snd entry))) (renderedResources template))
           \<and> list_all2
                (\<lambda>pair e. \<exists>target. js_to_string (snd pair) = Inr target
                             \<and> e = EdgeDecl (fst pair) target)
                (dependencyPairs template) (filter isEdge ds)
           \<and> (\<forall>entry \<in> set (renderedResources template).
                \<forall>name. JStr name \<in> set (dependsOn (snd entry)) \<longrightarrow>
                  EdgeDecl (fst entry) name \<in> set ds)"
proof -
  from assms obtain ds where ds: "decls template = Inr ds" and dt: "dotFile = showDecls ds"
    by (auto simp: createDotFile_Inr)
  let ?E = "\<lambda>pair e. \<exists>target. js_to_string (snd pair) = Inr target \<and> e = EdgeDecl (fst pair) target"
  have edges: "list_all2 ?E (dependencyPairs template) (filter isEdge ds)"
    by (rule decls_edges [OF ds])
  have count: "length (filter isEdge ds) =
      sum_list (map (\<lambda>entry. length (dependsOn (snd entry))) (renderedResources template))"
    using list_all2_lengthD [OF edges] by (simp add: length_dependencyPairs)
  have verbatim: "EdgeDecl (fst entry) name \<in> set ds"
    if en: "entry \<in> set (renderedResources template)" and dep: "JStr name \<in> set (dependsOn (snd entry))"
    for entry name
  proof -
    from en dep have "(fst entry, JStr name) \<in> set (dependencyPairs template)"
      by (auto simp: dependencyPairs_def)
    then obtain i where i: "i < length (dependencyPairs template)"
      and at: "dependencyPairs template ! i = (fst entry, JStr name)"
      by (auto simp: in_set_conv_nth)
    from list_all2_nthD [OF edges i] at
    have "filter isEdge ds ! i = EdgeDecl (fst entry) name" by simp
    moreover from i list_all2_lengthD [OF edges] have "i < length (filter isEdge ds)" by simp
    ultimately have "EdgeDecl (fst entry) name \<in> set (filter isEdge ds)"
      by (metis nth_mem)
    then show ?thesis by simp
  qed
  from ds dt count edges verbatim show ?thesis by blast
qed

theorem one_edge_per_dependency_witness:
  \<open>createDotFile (queueTemplate (JNum ''7'')) =
     Inr (dotHeader @ ''  "Q" [label="AWS::SQS::Queue\<newline>QueueName"];\<newline>  "Q" -> "Gone";\<newline>'' @ dotFooter)
   \<and> decls (queueTemplate (JNum ''7'')) =
       Inr [NodeDecl ''Q'' ''AWS::SQS::Queue\<newline>QueueName'', EdgeDecl ''Q'' ''Gone'']
   \<and> dependencyPairs (queueTemplate (JNum ''7'')) = [(''Q'', JStr ''Gone'')]
   \<and> map fst (resources (queueTemplate (JNum ''7''))) = [''Meta'', ''Q'']
   \<and> length (filter isEdge [NodeDecl ''Q'' ''AWS::SQS::Queue\<newline>QueueName'', EdgeDecl ''Q'' ''Gone'']) =
       sum_list (map (\<lambda>entry. length (dependsOn (snd entry))) (renderedResources (queueTemplate (JNum ''7''))))
   \<and> EdgeDecl ''Q'' ''Gone'' \<in> set [NodeDecl ''Q'' ''AWS::SQS::Queue\<newline>QueueName'', EdgeDecl ''Q'' ''Gone'']\<close>
proof -
  note t = queueTemplate_text [of "JNum ''7''"]
  from one_edge_per_dependency [OF t] queueTemplate_decls [of "JNum ''7''"]
  have "length (filter isEdge [NodeDecl ''Q'' ''AWS::SQS::Queue\<newline>QueueName'', EdgeDecl ''Q'' ''Gone'']) =
       sum_list (map (\<lambda>entry. length (dependsOn (snd entry))) (renderedResources (queueTemplate (JNum ''7''))))"
    by auto
  then show ?thesis
    using t queueTemplate_decls [of "JNum ''7''"]
    by (simp add: queueTemplate_resources queueTemplate_pairs)
qed


section \<open>The example template\<close>

lemma exampleTemplate_decls:
  "decls exampleTemplate = Inr [NodeDecl ''A'' ''X'', EdgeDecl ''A'' ''B'', NodeDecl ''B'' ''Y'']"
  by (simp add: decls_def resourceDecls_def labelOf_def propertyKeys_def dependsOn_def
      keyLines_def exampleTemplate_def metadataType_def)

lemma exampleTemplate_text:
  \<open>createDotFile exampleTemplate =
     Inr (dotHeader @ ''  "A" [label="X"];\<newline>  "A" -> "B";\<newline>  "B" [label="Y"];\<newline>'' @ dotFooter)\<close>
  by (simp add: createDotFile_decls exampleTemplate_decls showDecls_def)

section \<open>The layout of a document\<close>

text \<open>
  Claim C3 says that a document is all node declarations, then all edge declarations, then
  the closing marker. The loop appends the edges of a resource right after its node, before
  the node of the next resource: in the document of the example template the edge from
  \<^verbatim>\<open>A\<close> to \<^verbatim>\<open>B\<close> stands before the node \<^verbatim>\<open>B\<close>, and the declarations are no list of
  nodes followed by a list of edges.
\<close>

theorem nodes_then_edges_counterexample:
  \<open>createDotFile exampleTemplate =
     Inr ''digraph Resources {\<newline>node [shape=box fontname="Avenir, Helvetica" fontsize=10];  "A" [label="X"];\<newline>  "A" -> "B";\<newline>  "B" [label="Y"];\<newline>}\<newline>''
   \<and> decls exampleTemplate = Inr [NodeDecl ''A'' ''X'', EdgeDecl ''A'' ''B'', NodeDecl ''B'' ''Y'']
   \<and> \<not> (\<exists>nodes edges. list_all isNode nodes \<and> list_all isEdge edges
          \<and> decls exampleTemplate = Inr (nodes @ edges))\<close>
proof -
  have "\<not> (list_all isNode nodes \<and> list_all isEdge edges
          \<and> [NodeDecl ''A'' ''X'', EdgeDecl ''A'' ''B'', NodeDecl ''B'' ''Y''] = nodes @ edges)"
    for nodes edges
    by (auto simp: Cons_eq_append_conv)
  then show ?thesis
    using exampleTemplate_text exampleTemplate_decls
    by (simp add: dotHeader_def dotFooter_def)
qed

lemma resources_grouped:
  "mapE resourceDecls rs = Inr dss \<Longrightarrow>
   \<exists>groups. concat dss = concat groups
     \<and> list_all2
          (\<lambda>entry g. \<exists>label targets. labelOf (snd entry) = Inr label
             \<and> mapE js_to_string (dependsOn (snd entry)) = Inr targets
             \<and> g = NodeDecl (fst entry) label # map (EdgeDecl (fst entry)) targets)
          (filter (\<lambda>entry. \<not> isMetadata (snd entry)) rs) groups"
proof (induction rs arbitrary: dss)
  case Nil
  then show ?case by simp
next
  case (Cons entry rs)
  obtain n r where entry: "entry = (n, r)" by (cases entry)
  from Cons.prems obtain ds dss' where
    ds: "resourceDecls (n, r) = Inr ds" and dss': "mapE resourceDecls rs = Inr dss'" and
    eq: "dss = ds # dss'"
    by (auto simp: entry split: sum.splits)
  let ?G = "\<lambda>entry g. \<exists>label targets. labelOf (snd entry) = Inr label
             \<and> mapE js_to_string (dependsOn (snd entry)) = Inr targets
             \<and> g = NodeDecl (fst entry) label # map (EdgeDecl (fst entry)) targets"
  from Cons.IH [OF dss'] obtain groups where
    g: "concat dss' = concat groups"
       "list_all2 ?G (filter (\<lambda>entry. \<not> isMetadata (snd entry)) rs) groups"
    by blast
  from resourceDecls_Inr [OF ds] show ?case
  proof
    assume "isMetadata r \<and> ds = []"
    with g show ?thesis by (auto simp: eq entry)
  next
    assume nm: "\<not> isMetadata r \<and>
          (\<exists>label targets. labelOf r = Inr label
             \<and> mapE js_to_string (dependsOn r) = Inr targets
             \<and> ds = NodeDecl n label # map (EdgeDecl n) targets)"
    then have "?G (n, r) ds" by simp
    with g(2) nm have "list_all2 ?G (filter (\<lambda>entry. \<not> isMetadata (snd entry)) (entry # rs)) (ds # groups)"
      by (simp add: entry)
    moreover have "concat dss = concat (ds # groups)" by (simp add: eq g(1))
    ultimately show ?thesis by blast
  qed
qed

lemma concat_show_groups:
  "concat (map showDecl (concat groups)) = concat (map (\<lambda>g. concat (map showDecl g)) groups)"
  by (induction groups) auto

text \<open>
  Claim C3, as amended. A document is the header, then one group of declarations for each
  resource that is not of type \<^verbatim>\<open>AWS::CDK::Metadata\<close>, in the order of the resources, then
  the closing marker; a group is the node declaration of the resource followed by its edge
  declarations.
\<close>

theorem edges_follow_their_node:
  assumes "createDotFile template = Inr dotFile"
  shows "\<exists>groups.
           dotFile = dotHeader @ concat (map (\<lambda>g. concat (map showDecl g)) groups) @ dotFooter
           \<and> decls template = Inr (concat groups)
           \<and> list_all2
                (\<lambda>entry g. \<exists>label targets. labelOf (snd entry) = Inr label
                   \<and> mapE js_to_string (dependsOn (snd entry)) = Inr targets
                   \<and> g = NodeDecl (fst entry) label # map (EdgeDecl (fst entry)) targets)
                (renderedResources template) groups"
proof -
  from assms obtain ds where ds: "decls template = Inr ds" and dt: "dotFile = showDecls ds"
    by (auto simp: createDotFile_Inr)
  from decls_resources [OF ds] obtain dss where
    m: "mapE resourceDecls (resources template) = Inr dss" and c: "ds = concat dss" by blast
  from resources_grouped [OF m] obtain groups where
    g: "concat dss = concat groups"
       "list_all2
          (\<lambda>entry g. \<exists>label targets. labelOf (snd entry) = Inr label
             \<and> mapE js_to_string (dependsOn (snd entry)) = Inr targets
             \<and> g = NodeDecl (fst entry) label # map (EdgeDecl (fst entry)) targets)
          (renderedResources template) groups"
    unfolding renderedResources_def by blast
  have "dotFile = dotHeader @ concat (map (\<lambda>g. concat (map showDecl g)) groups) @ dotFooter"
    by (simp add: dt c g(1) showDecls_def concat_show_groups)
  with ds c g show ?thesis by auto
qed

theorem edges_follow_their_node_witness:
  \<open>createDotFile exampleTemplate =
     Inr (dotHeader @ ''  "A" [label="X"];\<newline>  "A" -> "B";\<newline>  "B" [label="Y"];\<newline>'' @ dotFooter)
   \<and> (\<exists>groups.
         dotHeader @ ''  "A" [label="X"];\<newline>  "A" -> "B";\<newline>  "B" [label="Y"];\<newline>'' @ dotFooter
           = dotHeader @ concat (map (\<lambda>g. concat (map showDecl g)) groups) @ dotFooter
         \<and> decls exampleTemplate = Inr (concat groups)
         \<and> length groups = length (renderedResources exampleTemplate))
   \<and> map fst (renderedResources exampleTemplate) = [''A'', ''B'']\<close>
proof -
  from edges_follow_their_node [OF exampleTemplate_text] obtain groups where
    g: \<open>dotHeader @ ''  "A" [label="X"];\<newline>  "A" -> "B";\<newline>  "B" [label="Y"];\<newline>'' @ dotFooter
           = dotHeader @ concat (map (\<lambda>g. concat (map showDecl g)) groups) @ dotFooter\<close>
       "decls exampleTemplate = Inr (concat groups)"
       "list_all2
                (\<lambda>entry g. \<exists>label targets. labelOf (snd entry) = Inr label
                   \<and> mapE js_to_string (dependsOn (snd entry)) = Inr targets
                   \<and> g = NodeDecl (fst entry) label # map (EdgeDecl (fst entry)) targets)
                (renderedResources exampleTemplate) groups"
    by auto
  from g(3) have "length groups = length (renderedResources exampleTemplate)"
    by (simp add: list_all2_lengthD)
  with g have ex: \<open>\<exists>groups.
         dotHeader @ ''  "A" [label="X"];\<newline>  "A" -> "B";\<newline>  "B" [label="Y"];\<newline>'' @ dotFooter
           = dotHeader @ concat (map (\<lambda>g. concat (map showDecl g)) groups) @ dotFooter
         \<and> decls exampleTemplate = Inr (concat groups)
         \<and> length groups = length (renderedResources exampleTemplate)\<close>
    by blast
  have "map fst (renderedResources exampleTemplate) = [''A'', ''B'']"
    by (simp add: renderedResources_def resources_def exampleTemplate_def isMetadata_def
        metadataType_def)
  with ex exampleTemplate_text show ?thesis by simp
qed


section \<open>Resources without properties\<close>

lemma js_to_string_error: "js_to_string v = Inl e \<Longrightarrow> e = TypeError"
  and js_join_error: "js_join vs = Inl e \<Longrightarrow> e = TypeError"
  by (induction v and vs rule: js_to_string_js_join.induct)
     (auto split: option.splits sum.splits json.splits list.splits)

lemma mapE_Inl: "mapE f xs = Inl e \<Longrightarrow> \<exists>x \<in> set xs. f x = Inl e"
  by (induction xs) (auto split: sum.splits)

lemma mapE_fails: "x \<in> set xs \<Longrightarrow> f x = Inl e \<Longrightarrow> \<exists>e'. mapE f xs = Inl e'"
  by (induction xs) (auto split: sum.splits)

lemma mapE_member:
  assumes "mapE f xs = Inr ys" and "x \<in> set xs"
  shows "\<exists>y \<in> set ys. f x = Inr y"
proof -
  from assms(2) obtain i where i: "i < length xs" and x: "xs ! i = x"
    by (auto simp: in_set_conv_nth)
  from mapE_D [OF assms(1)] have l: "list_all2 (\<lambda>x y. f x = Inr y) xs ys" .
  from list_all2_nthD [OF l i] x have "f x = Inr (ys ! i)" by simp
  moreover from i list_all2_lengthD [OF l] have "ys ! i \<in> set ys" by simp
  ultimately show ?thesis by blast
qed

lemma Object_keys_error: "Object_keys v = Inl e \<Longrightarrow> e = TypeError"
  by (cases v rule: Object_keys.cases) auto

lemma js_string_of_error: "js_string_of v = Inl e \<Longrightarrow> e = TypeError"
  by (cases v) (auto dest: js_to_string_error)

lemma labelOf_error: "labelOf r = Inl e \<Longrightarrow> e = TypeError"
  by (auto simp: labelOf_def propertyKeys_def js_get_Inl
      split: sum.splits dest: Object_keys_error js_string_of_error)

lemma resourceDecls_error: "resourceDecls entry = Inl e \<Longrightarrow> e = TypeError"
  by (auto simp: resourceDecls_def js_get_Inl split: sum.splits if_splits
      dest: labelOf_error js_to_string_error dest!: mapE_Inl)

lemma decls_error: "decls template = Inl e \<Longrightarrow> e = TypeError"
  by (auto simp: decls_def js_get_Inl split: sum.splits dest!: mapE_Inl resourceDecls_error)

lemma createDotFile_error: "createDotFile template = Inl e \<Longrightarrow> e = TypeError"
  by (auto simp: createDotFile_decls split: sum.splits dest: decls_error)

lemma resources_nonempty:
  "entry \<in> set (resources template) \<Longrightarrow>
   \<exists>rs. js_get template ''Resources'' = Inr rs \<and> resources template = for_in rs"
  by (auto simp: resources_def split: sum.splits)

lemma resourceDecls_no_properties:
  assumes "\<not> isMetadata r" and "js_get r ''Properties'' = Inr None"
  shows "resourceDecls (n, r) = Inl TypeError"
proof -
  from assms(2) have nn: "r \<noteq> JNull" by (rule js_get_Inr_not_null)
  then obtain label where lab: "js_get r ''Type'' = Inr label"
    by (cases "js_get r ''Type''") (auto simp: js_get_Inl)
  with assms(1) have nm: "label \<noteq> Some (JStr metadataType)" by (auto simp: isMetadata_def)
  have "propertyKeys r = Inl TypeError" using assms(2) by (simp add: propertyKeys_def)
  with lab have "labelOf r = Inl TypeError" by (simp add: labelOf_def)
  with lab nm show ?thesis by (simp add: resourceDecls_def)
qed

lemma resourceDecls_empty_properties:
  assumes "js_get r ''Type'' = Inr (Some (JStr ty))" and "ty \<noteq> metadataType"
    and "js_get r ''Properties'' = Inr (Some (JObj []))"
    and "resourceDecls (n, r) = Inr g"
  shows "NodeDecl n ty \<in> set g"
proof -
  have "propertyKeys r = Inr []" using assms(3) by (simp add: propertyKeys_def)
  with assms(1) have lab: "labelOf r = Inr ty" by (simp add: labelOf_def keyLines_def)
  from assms(1,2) have nm: "\<not> isMetadata r" by (simp add: isMetadata_def)
  from resourceDecls_Inr [OF assms(4)] nm lab show ?thesis by auto
qed

text \<open>
  Claim C2 says that a resource without \<^verbatim>\<open>Properties\<close> (and not of the metadata type) is
  rendered without an exception, its label being its type. The loop calls
  \<^verbatim>\<open>Object.keys(resource.Properties)\<close> with no guard, and \<^verbatim>\<open>Object.keys(undefined)\<close>
  raises a TypeError: the template \<^verbatim>\<open>{"Resources": {"A": {"Type": "X"}}}\<close> has no document.
\<close>

theorem missing_properties_counterexample:
  "resources bareTemplate = [(''A'', JObj [(''Type'', JStr ''X'')])]
   \<and> js_get (JObj [(''Type'', JStr ''X'')]) ''Type'' = Inr (Some (JStr ''X''))
   \<and> ''X'' \<noteq> metadataType
   \<and> js_get (JObj [(''Type'', JStr ''X'')]) ''Properties'' = Inr None
   \<and> createDotFile bareTemplate = Inl TypeError"
  by (simp add: resources_def bareTemplate_def metadataType_def createDotFile_def
      renderResource_def)

text \<open>
  Claim C2, as amended. A template with a resource that is not of the metadata type and has
  no \<^verbatim>\<open>Properties\<close> makes \<open>createDotFile\<close> raise a TypeError. Where a document is
  returned, a resource whose type is a string other than the metadata type and whose
  \<^verbatim>\<open>Properties\<close> is the empty object has a node declaration whose label is exactly its
  type, no property line appended.
\<close>

theorem missing_properties_raise:
  "(entry \<in> set (resources template) \<and> \<not> isMetadata (snd entry)
      \<and> js_get (snd entry) ''Properties'' = Inr None \<longrightarrow>
      createDotFile template = Inl TypeError)
   \<and> (createDotFile template = Inr dotFile \<and> entry \<in> set (resources template)
        \<and> js_get (snd entry) ''Type'' = Inr (Some (JStr ty)) \<and> ty \<noteq> metadataType
        \<and> js_get (snd entry) ''Properties'' = Inr (Some (JObj [])) \<longrightarrow>
        (\<exists>ds. decls template = Inr ds \<and> dotFile = showDecls ds
           \<and> NodeDecl (fst entry) ty \<in> set ds))"
proof (intro conjI impI)
  assume a: "entry \<in> set (resources template) \<and> \<not> isMetadata (snd entry)
      \<and> js_get (snd entry) ''Properties'' = Inr None"
  from a have en: "entry \<in> set (resources template)" by (rule conjunct1)
  from a have nm: "\<not> isMetadata (snd entry)" by (rule conjunct2 [THEN conjunct1])
  from a have np: "js_get (snd entry) ''Properties'' = Inr None"
    by (rule conjunct2 [THEN conjunct2])
  from resourceDecls_no_properties [OF nm np, of "fst entry"]
  have "resourceDecls entry = Inl TypeError" by simp
  from mapE_fails [of entry "resources template" resourceDecls TypeError, OF en this]
  obtain e where e: "mapE resourceDecls (resources template) = Inl e" ..
  from resources_nonempty [OF en] obtain rs where rs: "js_get template ''Resources'' = Inr rs"
    and fr: "resources template = for_in rs" by (elim exE conjE)
  from e have "mapE resourceDecls (for_in rs) = Inl e" by (simp only: fr)
  with rs have "decls template = Inl e" by (simp add: decls_def)
  then have ce: "createDotFile template = Inl e" by (simp add: createDotFile_decls)
  from createDotFile_error [OF ce] ce
  show "createDotFile template = Inl TypeError" by simp
next
  assume a: "createDotFile template = Inr dotFile \<and> entry \<in> set (resources template)
        \<and> js_get (snd entry) ''Type'' = Inr (Some (JStr ty)) \<and> ty \<noteq> metadataType
        \<and> js_get (snd entry) ''Properties'' = Inr (Some (JObj []))"
  from a have cr: "createDotFile template = Inr dotFile" by (rule conjunct1)
  from a have en: "entry \<in> set (resources template)" by (rule conjunct2 [THEN conjunct1])
  from a have ty: "js_get (snd entry) ''Type'' = Inr (Some (JStr ty))"
    by (rule conjunct2 [THEN conjunct2, THEN conjunct1])
  from a have nm: "ty \<noteq> metadataType"
    by (rule conjunct2 [THEN conjunct2, THEN conjunct2, THEN conjunct1])
  from a have pr: "js_get (snd entry) ''Properties'' = Inr (Some (JObj []))"
    by (rule conjunct2 [THEN conjunct2, THEN conjunct2, THEN conjunct2])
  from cr [unfolded createDotFile_Inr]
  obtain ds where ds: "decls template = Inr ds" and dt: "dotFile = showDecls ds"
    by (elim exE conjE)
  from decls_resources [OF ds] obtain dss where
    m: "mapE resourceDecls (resources template) = Inr dss" and c: "ds = concat dss"
    by (elim exE conjE)
  from mapE_member [of resourceDecls "resources template" dss entry, OF m en] obtain g where g1: "g \<in> set dss"
    and g2: "resourceDecls entry = Inr g" by (elim bexE)
  from g2 have "resourceDecls (fst entry, snd entry) = Inr g" by simp
  from resourceDecls_empty_properties [OF ty nm pr this]
  have "NodeDecl (fst entry) ty \<in> set g" .
  with g1 have "NodeDecl (fst entry) ty \<in> set (concat dss)" by auto
  then have "NodeDecl (fst entry) ty \<in> set ds" by (simp only: c)
  with ds dt show "\<exists>ds. decls template = Inr ds \<and> dotFile = showDecls ds
           \<and> NodeDecl (fst entry) ty \<in> set ds" by (intro exI conjI)
qed

theorem missing_properties_raise_witness:
  \<open>(''A'', JObj [(''Type'', JStr ''X'')]) \<in> set (resources bareTemplate)
   \<and> \<not> isMetadata (JObj [(''Type'', JStr ''X'')])
   \<and> js_get (JObj [(''Type'', JStr ''X'')]) ''Properties'' = Inr None
   \<and> createDotFile bareTemplate = Inl TypeError
   \<and> createDotFile exampleTemplate =
       Inr (dotHeader @ ''  "A" [label="X"];\<newline>  "A" -> "B";\<newline>  "B" [label="Y"];\<newline>'' @ dotFooter)
   \<and> (''B'', JObj [(''Type'', JStr ''Y''), (''Properties'', JObj [])]) \<in> set (resources exampleTemplate)
   \<and> ''Y'' \<noteq> metadataType
   \<and> (\<exists>ds. decls exampleTemplate = Inr ds \<and> NodeDecl ''B'' ''Y'' \<in> set ds)\<close>
proof -
  have h1: "(''A'', JObj [(''Type'', JStr ''X'')]) \<in> set (resources bareTemplate)"
    by (simp add: resources_def bareTemplate_def)
  have h2: "\<not> isMetadata (JObj [(''Type'', JStr ''X'')])"
    by (simp add: isMetadata_def metadataType_def)
  have h3: "(''B'', JObj [(''Type'', JStr ''Y''), (''Properties'', JObj [])]) \<in> set (resources exampleTemplate)"
    by (simp add: resources_def exampleTemplate_def)
  have h4: "''Y'' \<noteq> metadataType" by (simp add: metadataType_def)
  from missing_properties_raise [of "(''A'', JObj [(''Type'', JStr ''X'')])" bareTemplate] h1 h2
  have c1: "createDotFile bareTemplate = Inl TypeError" by simp
  from missing_properties_raise
    [of "(''B'', JObj [(''Type'', JStr ''Y''), (''Properties'', JObj [])])" exampleTemplate _ "''Y''"]
    h3 h4 exampleTemplate_text
  have c2: "\<exists>ds. decls exampleTemplate = Inr ds \<and> NodeDecl ''B'' ''Y'' \<in> set ds" by auto
  from h1 h2 h3 h4 c1 c2 exampleTemplate_text show ?thesis by simp
qed


section \<open>Property values\<close>

lemma resourceDecls_shape:
  assumes "resourceShape e1 = resourceShape e2"
  shows "resourceDecls e1 = resourceDecls e2"
proof -
  from assms have n: "fst e1 = fst e2" and t: "js_get (snd e1) ''Type'' = js_get (snd e2) ''Type''"
    and k: "propertyKeys (snd e1) = propertyKeys (snd e2)"
    and d: "dependsOn (snd e1) = dependsOn (snd e2)"
    by (simp_all add: resourceShape_def)
  from t k have "labelOf (snd e1) = labelOf (snd e2)"
    by (simp add: labelOf_def split: sum.splits)
  with n t d show ?thesis by (simp add: resourceDecls_def split: sum.splits)
qed

lemma mapE_shape:
  "map resourceShape xs = map resourceShape ys \<Longrightarrow>
   mapE resourceDecls xs = mapE resourceDecls ys"
proof (induction xs arbitrary: ys)
  case Nil
  then show ?case by simp
next
  case (Cons x xs)
  then obtain y ys' where ys: "ys = y # ys'" and h: "resourceShape x = resourceShape y"
    and t: "map resourceShape xs = map resourceShape ys'" by (cases ys) auto
  from resourceDecls_shape [OF h] Cons.IH [OF t] show ?case
    by (simp add: ys split: sum.splits)
qed

lemma decls_by_resources:
  "decls template =
     (if template = JNull then Inl TypeError
      else (case mapE resourceDecls (resources template) of
              Inl e \<Rightarrow> Inl e
            | Inr dss \<Rightarrow> Inr (concat dss)))"
  by (cases "js_get template ''Resources''") (auto simp: decls_def resources_def js_get_Inl)

lemma mapE_origin:
  assumes "mapE f xs = Inr ys" and "y \<in> set ys"
  shows "\<exists>x \<in> set xs. f x = Inr y"
proof -
  from assms(2) obtain i where i: "i < length ys" and y: "ys ! i = y"
    by (auto simp: in_set_conv_nth)
  from mapE_D [OF assms(1)] have l: "list_all2 (\<lambda>x y. f x = Inr y) xs ys" .
  from i list_all2_lengthD [OF l] have i': "i < length xs" by simp
  from list_all2_nthD [OF l i'] y have "f (xs ! i) = Inr y" by simp
  moreover from i' have "xs ! i \<in> set xs" by simp
  ultimately show ?thesis by blast
qed

lemma node_label:
  assumes "decls template = Inr ds" and "d \<in> set ds" and "isNode d"
  shows "\<exists>entry \<in> set (renderedResources template). \<exists>ty typeText keys.
           js_get (snd entry) ''Type'' = Inr ty \<and> js_string_of ty = Inr typeText
           \<and> propertyKeys (snd entry) = Inr keys
           \<and> d = NodeDecl (fst entry) (typeText @ keyLines keys)"
proof -
  from decls_resources [OF assms(1)] obtain dss where
    m: "mapE resourceDecls (resources template) = Inr dss" and c: "ds = concat dss"
    by (elim exE conjE)
  from assms(2) c obtain g where g: "g \<in> set dss" and dg: "d \<in> set g" by auto
  from mapE_origin [of resourceDecls "resources template" dss g, OF m g]
  obtain entry where en: "entry \<in> set (resources template)"
    and rd: "resourceDecls entry = Inr g" by (elim bexE)
  from rd have "resourceDecls (fst entry, snd entry) = Inr g" by simp
  from resourceDecls_Inr [OF this] dg obtain label targets where
    nm: "\<not> isMetadata (snd entry)" and lab: "labelOf (snd entry) = Inr label"
    and gv: "g = NodeDecl (fst entry) label # map (EdgeDecl (fst entry)) targets"
    by auto
  from dg gv assms(3) have dv: "d = NodeDecl (fst entry) label" by auto
  from lab obtain ty typeText keys where
    "js_get (snd entry) ''Type'' = Inr ty" "js_string_of ty = Inr typeText"
    "propertyKeys (snd entry) = Inr keys" "label = typeText @ keyLines keys"
    by (auto simp: labelOf_def split: sum.splits)
  moreover from en nm have "entry \<in> set (renderedResources template)"
    by (simp add: renderedResources_def)
  ultimately show ?thesis using dv by blast
qed

text \<open>
  Claim C8. The values of resource properties do not reach the document. Two templates with
  the same shape (the same resource names in the same order, and for each resource the same
  \<^verbatim>\<open>Type\<close>, the same property keys in the same order and the same \<^verbatim>\<open>DependsOn\<close>) have
  the same result, whatever the property values are. Every node label of a document is the
  text of the type followed by one line per property key, and the keys of a
  \<^verbatim>\<open>Properties\<close> object are the first components of its entries: no value is read.
\<close>

theorem property_values_do_not_matter:
  "(templateShape template1 = templateShape template2 \<longrightarrow>
      createDotFile template1 = createDotFile template2)
   \<and> (createDotFile template = Inr dotFile \<longrightarrow>
        (\<exists>ds. decls template = Inr ds \<and> dotFile = showDecls ds
           \<and> (\<forall>d \<in> set ds. isNode d \<longrightarrow>
                (\<exists>entry \<in> set (renderedResources template). \<exists>ty typeText keys.
                   js_get (snd entry) ''Type'' = Inr ty \<and> js_string_of ty = Inr typeText
                   \<and> propertyKeys (snd entry) = Inr keys
                   \<and> d = NodeDecl (fst entry) (typeText @ keyLines keys)))))
   \<and> (js_get resource ''Properties'' = Inr (Some (JObj properties)) \<longrightarrow>
        propertyKeys resource = Inr (map fst properties))"
proof (intro conjI impI)
  assume "templateShape template1 = templateShape template2"
  then have n: "(template1 = JNull) = (template2 = JNull)"
    and r: "map resourceShape (resources template1) = map resourceShape (resources template2)"
    by (simp_all add: templateShape_def)
  from mapE_shape [OF r] n have "decls template1 = decls template2"
    by (simp add: decls_by_resources)
  then show "createDotFile template1 = createDotFile template2"
    by (simp add: createDotFile_decls)
next
  assume "createDotFile template = Inr dotFile"
  then obtain ds where ds: "decls template = Inr ds" and dt: "dotFile = showDecls ds"
    unfolding createDotFile_Inr by (elim exE conjE)
  from node_label [OF ds] ds dt
  show "\<exists>ds. decls template = Inr ds \<and> dotFile = showDecls ds
           \<and> (\<forall>d \<in> set ds. isNode d \<longrightarrow>
                (\<exists>entry \<in> set (renderedResources template). \<exists>ty typeText keys.
                   js_get (snd entry) ''Type'' = Inr ty \<and> js_string_of ty = Inr typeText
                   \<and> propertyKeys (snd entry) = Inr keys
                   \<and> d = NodeDecl (fst entry) (typeText @ keyLines keys)))"
    by (intro exI conjI ballI impI)
next
  assume "js_get resource ''Properties'' = Inr (Some (JObj properties))"
  then show "propertyKeys resource = Inr (map fst properties)"
    by (simp add: propertyKeys_def)
qed

lemma queueTemplate_shape:
  "templateShape (queueTemplate v) = templateShape (queueTemplate v')"
proof -
  have "queueTemplate w \<noteq> JNull" for w by (simp add: queueTemplate_def)
  then show ?thesis
    by (simp add: templateShape_def queueTemplate_resources resourceShape_def propertyKeys_def
        dependsOn_def)
qed

theorem property_values_do_not_matter_witness:
  \<open>templateShape (queueTemplate (JStr ''secret'')) = templateShape (queueTemplate (JNum ''42''))
   \<and> queueTemplate (JStr ''secret'') \<noteq> queueTemplate (JNum ''42'')
   \<and> createDotFile (queueTemplate (JStr ''secret'')) = createDotFile (queueTemplate (JNum ''42''))
   \<and> createDotFile (queueTemplate (JStr ''secret'')) =
       Inr (dotHeader @ ''  "Q" [label="AWS::SQS::Queue\<newline>QueueName"];\<newline>  "Q" -> "Gone";\<newline>'' @ dotFooter)
   \<and> (\<exists>ds. decls (queueTemplate (JStr ''secret'')) = Inr ds
          \<and> NodeDecl ''Q'' (''AWS::SQS::Queue'' @ keyLines [''QueueName'']) \<in> set ds)
   \<and> js_get (JObj [(''Properties'', JObj [(''QueueName'', JStr ''secret'')])]) ''Properties''
       = Inr (Some (JObj [(''QueueName'', JStr ''secret'')]))
   \<and> propertyKeys (JObj [(''Properties'', JObj [(''QueueName'', JStr ''secret'')])])
       = Inr [''QueueName'']\<close>
proof -
  note thm1 = property_values_do_not_matter
    [of "queueTemplate (JStr ''secret'')" "queueTemplate (JNum ''42'')"
        "queueTemplate (JStr ''secret'')" _
        "JObj [(''Properties'', JObj [(''QueueName'', JStr ''secret'')])]"
        "[(''QueueName'', JStr ''secret'')]"]
  have sh: "templateShape (queueTemplate (JStr ''secret'')) = templateShape (queueTemplate (JNum ''42''))"
    by (rule queueTemplate_shape)
  have ne: "queueTemplate (JStr ''secret'') \<noteq> queueTemplate (JNum ''42'')"
    by (simp add: queueTemplate_def)
  from thm1 sh have eq: "createDotFile (queueTemplate (JStr ''secret'')) = createDotFile (queueTemplate (JNum ''42''))"
    by simp
  have g: "js_get (JObj [(''Properties'', JObj [(''QueueName'', JStr ''secret'')])]) ''Properties''
       = Inr (Some (JObj [(''QueueName'', JStr ''secret'')]))" by simp
  from thm1 g have pk: "propertyKeys (JObj [(''Properties'', JObj [(''QueueName'', JStr ''secret'')])])
       = Inr [''QueueName'']" by simp
  have nd: "\<exists>ds. decls (queueTemplate (JStr ''secret'')) = Inr ds
          \<and> NodeDecl ''Q'' (''AWS::SQS::Queue'' @ keyLines [''QueueName'']) \<in> set ds"
    by (simp add: queueTemplate_decls keyLines_def)
  from sh ne eq g pk nd queueTemplate_text [of "JStr ''secret''"] show ?thesis by simp
qed


section \<open>Determinism and order\<close>

lemma createDotFilesStep_None:
  assumes "createDotFilesStep parse artifactPath w = (None, w')"
  shows "\<exists>data template dotFile.
           files w artifactPath = Some data \<and> parse data = Some template
           \<and> createDotFile template = Inr dotFile
           \<and> faults w (artifactPath @ ''.dot'') = None
           \<and> w' = w\<lparr>files := (files w)(artifactPath @ ''.dot'' \<mapsto> dotFile)\<rparr>"
  using assms
  by (auto simp: createDotFilesStep_def decodeTemplate_def readFileSync_def JSON_parse_def
      writeFileSync_def split: sum.splits option.splits fault.splits)

lemma secondWriteFails_first_step:
  "createDotFilesStep sampleParse ''a.json'' (secondWriteFails f) =
     (None, (secondWriteFails f)
        \<lparr>files := (files (secondWriteFails f))(''a.json.dot'' \<mapsto> dotHeader @ dotFooter)\<rparr>)"
  by (simp add: createDotFilesStep_def decodeTemplate_def readFileSync_def JSON_parse_def
      writeFileSync_def secondWriteFails_def sampleParse_def emptyTemplateText_def
      exampleTemplateText_def createDotFile_def)

lemma defineProperty_new:
  "fst property \<notin> fst ` set ps \<Longrightarrow> defineProperty ps property = ps @ [property]"
  by (induction ps) auto

lemma foldl_defineProperty:
  "distinct (map fst (acc @ members)) \<Longrightarrow> foldl defineProperty acc members = acc @ members"
proof (induction members arbitrary: acc)
  case Nil
  then show ?case by simp
next
  case (Cons m members)
  from Cons.prems have "fst m \<notin> fst ` set acc" by auto
  then have "defineProperty acc m = acc @ [m]" by (rule defineProperty_new)
  moreover from Cons.prems have "distinct (map fst ((acc @ [m]) @ members))" by simp
  ultimately show ?case using Cons.IH [of "acc @ [m]"] by simp
qed

lemma createdOrder_distinct:
  "distinct (map fst members) \<Longrightarrow> createdOrder members = members"
  using foldl_defineProperty [of "[]" members] by (simp add: createdOrder_def)

lemma ownProperties_named:
  assumes "list_all (\<lambda>property. \<not> isArrayIndex property) ps"
  shows "ownProperties ps = ps"
proof -
  from assms have "filter isArrayIndex ps = []"
    by (simp add: list_all_iff filter_empty_conv)
  moreover from assms have "filter (\<lambda>property. \<not> isArrayIndex property) ps = ps"
    by (simp add: list_all_iff filter_id_conv)
  ultimately show ?thesis by (simp add: ownProperties_def)
qed

lemma resources_parsedObject:
  assumes "js_get template ''Resources'' = Inr (Some (parsedObject members))"
  shows "resources template = ownProperties (createdOrder members)"
  using assms by (simp add: resources_def parsedObject_def)

lemma arrayIndex_examples:
  "arrayIndex ''1'' = Some 1" "arrayIndex ''2'' = Some 2"
  "arrayIndex ''a'' = None" "arrayIndex ''b'' = None"
  by (simp_all add: arrayIndex_def isDigit_def nat_of_digits_def)

lemma mixedTemplate_resources:
  "resources mixedTemplate =
     [(''1'', plainResource), (''2'', plainResource), (''b'', plainResource), (''a'', plainResource)]"
  by (simp add: resources_def mixedTemplate_def parsedObject_def createdOrder_def mixedNames_def
      ownProperties_def isArrayIndex_def indexValue_def arrayIndex_examples)

lemma mixedTemplate_decls:
  "decls mixedTemplate =
     Inr [NodeDecl ''1'' ''T'', NodeDecl ''2'' ''T'', NodeDecl ''b'' ''T'', NodeDecl ''a'' ''T'']"
proof -
  have nn: "mixedTemplate \<noteq> JNull" by (simp add: mixedTemplate_def)
  have r: "resourceDecls (n, plainResource) = Inr [NodeDecl n ''T'']" for n
    by (simp add: resourceDecls_def labelOf_def propertyKeys_def dependsOn_def keyLines_def
        plainResource_def metadataType_def)
  from nn show ?thesis
    by (simp add: decls_by_resources mixedTemplate_resources r)
qed

lemma mixedTemplate_text:
  \<open>createDotFile mixedTemplate =
     Inr (dotHeader @ ''  "1" [label="T"];\<newline>  "2" [label="T"];\<newline>  "b" [label="T"];\<newline>  "a" [label="T"];\<newline>'' @ dotFooter)\<close>
  by (simp add: createDotFile_decls mixedTemplate_decls showDecls_def)


text \<open>
  Claim C6 says that the node declarations appear in the insertion order of the manifest.
  The loop is a \<^verbatim>\<open>for ... in\<close>, which visits the names that are array indices first, in
  ascending numeric order, whenever they were inserted: the template whose resources are
  inserted as \<^verbatim>\<open>b\<close>, \<^verbatim>\<open>2\<close>, \<^verbatim>\<open>a\<close>, \<^verbatim>\<open>1\<close> has its nodes in the order \<^verbatim>\<open>1\<close>,
  \<^verbatim>\<open>2\<close>, \<^verbatim>\<open>b\<close>, \<^verbatim>\<open>a\<close>.
\<close>

theorem insertion_order_counterexample:
  \<open>map fst mixedNames = [''b'', ''2'', ''a'', ''1'']
   \<and> distinct (map fst mixedNames)
   \<and> mixedTemplate = JObj [(''Resources'', parsedObject mixedNames)]
   \<and> createDotFile mixedTemplate =
       Inr (dotHeader @ ''  "1" [label="T"];\<newline>  "2" [label="T"];\<newline>  "b" [label="T"];\<newline>  "a" [label="T"];\<newline>'' @ dotFooter)
   \<and> decls mixedTemplate =
       Inr [NodeDecl ''1'' ''T'', NodeDecl ''2'' ''T'', NodeDecl ''b'' ''T'', NodeDecl ''a'' ''T'']
   \<and> map declName
         (filter isNode
            [NodeDecl ''1'' ''T'', NodeDecl ''2'' ''T'', NodeDecl ''b'' ''T'', NodeDecl ''a'' ''T''])
       \<noteq> map fst mixedNames\<close>
proof -
  have n: "map fst mixedNames = [''b'', ''2'', ''a'', ''1'']" by (simp add: mixedNames_def)
  then have d: "distinct (map fst mixedNames)" by simp
  have m: "mixedTemplate = JObj [(''Resources'', parsedObject mixedNames)]"
    by (simp add: mixedTemplate_def)
  from n d m mixedTemplate_text mixedTemplate_decls show ?thesis by simp
qed

text \<open>
  Claim C6, as amended. Rendering is deterministic: \<open>createDotFile\<close> is a function of the
  template alone, and two runs of the callback that read the same text for an artifact
  write the same document, whatever else differs between the two worlds. The node
  declarations of a document come in the order in which \<^verbatim>\<open>for ... in\<close> visits the
  resources. For a \<^verbatim>\<open>Resources\<close> object with the given members, of pairwise distinct names,
  that order is: the names that are array indices, in ascending numeric order, then the other
  names in insertion order. It is the insertion order when no name is an array index.
\<close>

theorem rendering_deterministic_in_enumeration_order:
  "(files w1 artifactPath = files w2 artifactPath
      \<and> createDotFilesStep parse artifactPath w1 = (None, w1')
      \<and> createDotFilesStep parse artifactPath w2 = (None, w2') \<longrightarrow>
      files w1' (artifactPath @ ''.dot'') = files w2' (artifactPath @ ''.dot''))
   \<and> (createDotFile template = Inr dotFile \<longrightarrow>
        (\<exists>ds. decls template = Inr ds \<and> dotFile = showDecls ds
           \<and> map declName (filter isNode ds) = map fst (renderedResources template)))
   \<and> (js_get template ''Resources'' = Inr (Some (parsedObject members))
        \<and> distinct (map fst members) \<longrightarrow>
        resources template =
          sort_key indexValue (filter isArrayIndex members)
            @ filter (\<lambda>property. \<not> isArrayIndex property) members
        \<and> sorted (map indexValue (sort_key indexValue (filter isArrayIndex members))))
   \<and> (js_get template ''Resources'' = Inr (Some (parsedObject members))
        \<and> distinct (map fst members)
        \<and> list_all (\<lambda>property. \<not> isArrayIndex property) members \<longrightarrow>
        resources template = members)"
proof (intro conjI impI)
  assume a: "files w1 artifactPath = files w2 artifactPath
      \<and> createDotFilesStep parse artifactPath w1 = (None, w1')
      \<and> createDotFilesStep parse artifactPath w2 = (None, w2')"
  from a have same: "files w1 artifactPath = files w2 artifactPath" by (rule conjunct1)
  from a have r1: "createDotFilesStep parse artifactPath w1 = (None, w1')"
    by (rule conjunct2 [THEN conjunct1])
  from a have r2: "createDotFilesStep parse artifactPath w2 = (None, w2')"
    by (rule conjunct2 [THEN conjunct2])
  from createDotFilesStep_None [OF r1] obtain data1 template1 dotFile1 where
    s1: "files w1 artifactPath = Some data1" "parse data1 = Some template1"
        "createDotFile template1 = Inr dotFile1"
        "w1' = w1\<lparr>files := (files w1)(artifactPath @ ''.dot'' \<mapsto> dotFile1)\<rparr>"
    by blast
  from createDotFilesStep_None [OF r2] obtain data2 template2 dotFile2 where
    s2: "files w2 artifactPath = Some data2" "parse data2 = Some template2"
        "createDotFile template2 = Inr dotFile2"
        "w2' = w2\<lparr>files := (files w2)(artifactPath @ ''.dot'' \<mapsto> dotFile2)\<rparr>"
    by blast
  from same s1 s2 have "dotFile1 = dotFile2" by simp
  with s1 s2 show "files w1' (artifactPath @ ''.dot'') = files w2' (artifactPath @ ''.dot'')"
    by simp
next
  assume "createDotFile template = Inr dotFile"
  then obtain ds where ds: "decls template = Inr ds" and dt: "dotFile = showDecls ds"
    by (auto simp: createDotFile_Inr)
  with decls_nodes [OF ds]
  show "\<exists>ds. decls template = Inr ds \<and> dotFile = showDecls ds
           \<and> map declName (filter isNode ds) = map fst (renderedResources template)"
    by blast
next
  assume a: "js_get template ''Resources'' = Inr (Some (parsedObject members))
        \<and> distinct (map fst members)"
  from resources_parsedObject [OF conjunct1 [OF a]] createdOrder_distinct [OF conjunct2 [OF a]]
  show "resources template =
          sort_key indexValue (filter isArrayIndex members)
            @ filter (\<lambda>property. \<not> isArrayIndex property) members"
    by (simp add: ownProperties_def)
  show "sorted (map indexValue (sort_key indexValue (filter isArrayIndex members)))"
    by (rule sorted_sort_key)
next
  assume a: "js_get template ''Resources'' = Inr (Some (parsedObject members))
        \<and> distinct (map fst members)
        \<and> list_all (\<lambda>property. \<not> isArrayIndex property) members"
  from a have g: "js_get template ''Resources'' = Inr (Some (parsedObject members))"
    by (rule conjunct1)
  from a have d: "distinct (map fst members)" by (rule conjunct2 [THEN conjunct1])
  from a have n: "list_all (\<lambda>property. \<not> isArrayIndex property) members"
    by (rule conjunct2 [THEN conjunct2])
  from resources_parsedObject [OF g] createdOrder_distinct [OF d] ownProperties_named [OF n]
  show "resources template = members" by simp
qed

theorem rendering_deterministic_in_enumeration_order_witness:
  \<open>files (secondWriteFails OpenFails) ''a.json''
     = files ((secondWriteFails OpenFails)\<lparr>console := [SyntaxError]\<rparr>) ''a.json''
   \<and> createDotFilesStep sampleParse ''a.json'' (secondWriteFails OpenFails) =
       (None, (secondWriteFails OpenFails)
          \<lparr>files := (files (secondWriteFails OpenFails))(''a.json.dot'' \<mapsto> dotHeader @ dotFooter)\<rparr>)
   \<and> createDotFilesStep sampleParse ''a.json'' ((secondWriteFails OpenFails)\<lparr>console := [SyntaxError]\<rparr>) =
       (None, (secondWriteFails OpenFails)
          \<lparr>console := [SyntaxError],
            files := (files (secondWriteFails OpenFails))(''a.json.dot'' \<mapsto> dotHeader @ dotFooter)\<rparr>)
   \<and> files ((secondWriteFails OpenFails)
          \<lparr>files := (files (secondWriteFails OpenFails))(''a.json.dot'' \<mapsto> dotHeader @ dotFooter)\<rparr>)
         ''a.json.dot''
       = files ((secondWriteFails OpenFails)
          \<lparr>console := [SyntaxError],
            files := (files (secondWriteFails OpenFails))(''a.json.dot'' \<mapsto> dotHeader @ dotFooter)\<rparr>)
         ''a.json.dot''
   \<and> createDotFile mixedTemplate =
       Inr (dotHeader @ ''  "1" [label="T"];\<newline>  "2" [label="T"];\<newline>  "b" [label="T"];\<newline>  "a" [label="T"];\<newline>'' @ dotFooter)
   \<and> decls mixedTemplate =
       Inr [NodeDecl ''1'' ''T'', NodeDecl ''2'' ''T'', NodeDecl ''b'' ''T'', NodeDecl ''a'' ''T'']
   \<and> map declName
         (filter isNode
            [NodeDecl ''1'' ''T'', NodeDecl ''2'' ''T'', NodeDecl ''b'' ''T'', NodeDecl ''a'' ''T''])
       = map fst (renderedResources mixedTemplate)
   \<and> js_get mixedTemplate ''Resources'' = Inr (Some (parsedObject mixedNames))
   \<and> distinct (map fst mixedNames)
   \<and> resources mixedTemplate =
       sort_key indexValue (filter isArrayIndex mixedNames)
         @ filter (\<lambda>property. \<not> isArrayIndex property) mixedNames
   \<and> map fst (resources mixedTemplate) = [''1'', ''2'', ''b'', ''a'']
   \<and> js_get (JObj [(''Resources'', parsedObject [(''b'', plainResource), (''a'', plainResource)])])
         ''Resources''
       = Inr (Some (parsedObject [(''b'', plainResource), (''a'', plainResource)]))
   \<and> list_all (\<lambda>property. \<not> isArrayIndex property) [(''b'', plainResource), (''a'', plainResource)]
   \<and> resources (JObj [(''Resources'', parsedObject [(''b'', plainResource), (''a'', plainResource)])])
       = [(''b'', plainResource), (''a'', plainResource)]\<close>
proof -
  let ?w = "secondWriteFails OpenFails"
  let ?w1 = "?w\<lparr>files := (files ?w)(''a.json.dot'' \<mapsto> dotHeader @ dotFooter)\<rparr>"
  let ?w2 = "?w\<lparr>console := [SyntaxError],
            files := (files ?w)(''a.json.dot'' \<mapsto> dotHeader @ dotFooter)\<rparr>"
  let ?named = "[(''b'', plainResource), (''a'', plainResource)]"
  have other: "createDotFilesStep sampleParse ''a.json'' (?w\<lparr>console := [SyntaxError]\<rparr>) = (None, ?w2)"
    by (simp add: createDotFilesStep_def decodeTemplate_def readFileSync_def JSON_parse_def
      writeFileSync_def secondWriteFails_def sampleParse_def emptyTemplateText_def
      exampleTemplateText_def createDotFile_def)
  have f: "files ?w ''a.json'' = files (?w\<lparr>console := [SyntaxError]\<rparr>) ''a.json''" by simp
  note det = rendering_deterministic_in_enumeration_order
    [of ?w "''a.json''" "?w\<lparr>console := [SyntaxError]\<rparr>" sampleParse ?w1 ?w2
        mixedTemplate _ mixedNames]
  have "files ?w1 (''a.json'' @ ''.dot'') = files ?w2 (''a.json'' @ ''.dot'')"
    by (rule det [THEN conjunct1, THEN mp])
       (intro conjI f secondWriteFails_first_step other)
  then have same: "files ?w1 ''a.json.dot'' = files ?w2 ''a.json.dot''" by simp
  from det [THEN conjunct2, THEN conjunct1, THEN mp, OF mixedTemplate_text]
  obtain ds where "decls mixedTemplate = Inr ds"
    and "map declName (filter isNode ds) = map fst (renderedResources mixedTemplate)"
    by (elim exE conjE)
  with mixedTemplate_decls
  have order: "map declName
         (filter isNode
            [NodeDecl ''1'' ''T'', NodeDecl ''2'' ''T'', NodeDecl ''b'' ''T'', NodeDecl ''a'' ''T''])
       = map fst (renderedResources mixedTemplate)"
    by simp
  have g: "js_get mixedTemplate ''Resources'' = Inr (Some (parsedObject mixedNames))"
    by (simp add: mixedTemplate_def)
  have d: "distinct (map fst mixedNames)" by (simp add: mixedNames_def)
  from det [THEN conjunct2, THEN conjunct2, THEN conjunct1, THEN mp, OF conjI [OF g d]]
  have enum: "resources mixedTemplate =
       sort_key indexValue (filter isArrayIndex mixedNames)
         @ filter (\<lambda>property. \<not> isArrayIndex property) mixedNames"
    by (rule conjunct1)
  have names: "map fst (resources mixedTemplate) = [''1'', ''2'', ''b'', ''a'']"
    by (simp add: mixedTemplate_resources)
  have g2: "js_get (JObj [(''Resources'', parsedObject ?named)]) ''Resources''
       = Inr (Some (parsedObject ?named))" by simp
  have d2: "distinct (map fst ?named)" by simp
  have n2: "list_all (\<lambda>property. \<not> isArrayIndex property) ?named"
    by (simp add: isArrayIndex_def arrayIndex_examples)
  have ins: "resources (JObj [(''Resources'', parsedObject ?named)]) = ?named"
    by (rule rendering_deterministic_in_enumeration_order
          [THEN conjunct2, THEN conjunct2, THEN conjunct2, THEN mp])
       (intro conjI g2 d2 n2)
  from f secondWriteFails_first_step [of OpenFails] other same mixedTemplate_text
    mixedTemplate_decls order g d enum names g2 n2 ins
  show ?thesis by (intro conjI)
qed


section \<open>Failures in a batch\<close>

lemma createDotFiles_append:
  "createDotFiles parse (xs @ ys) w =
     (case createDotFiles parse xs w of
        (None, w1) \<Rightarrow> createDotFiles parse ys w1
      | (Some e, w1) \<Rightarrow> (Some e, w1))"
  by (induction xs arbitrary: w) (auto split: prod.splits option.splits)

lemma writeFileSync_cases:
  "writeFileSync w path data = (result, w') \<Longrightarrow>
   (result = None \<and> faults w path = None \<and> w' = w\<lparr>files := (files w)(path \<mapsto> data)\<rparr>)
   \<or> (result = Some (WriteError path) \<and> faults w path = Some OpenFails \<and> w' = w)
   \<or> (\<exists>n. result = Some (WriteError path) \<and> faults w path = Some (WriteFailsAfter n)
          \<and> w' = w\<lparr>files := (files w)(path \<mapsto> take n data)\<rparr>)"
  by (auto simp: writeFileSync_def split: option.splits fault.splits)

lemma createDotFilesStep_cases:
  assumes "createDotFilesStep parse artifactPath w = (result, w')"
  shows "(\<exists>e. result = Some e \<and> e \<noteq> WriteError (artifactPath @ ''.dot'') \<and> w' = w)
         \<or> (\<exists>template dotFile. decodeTemplate parse w artifactPath = Inr template
               \<and> createDotFile template = Inr dotFile
               \<and> writeFileSync w (artifactPath @ ''.dot'') dotFile = (result, w'))"
proof (cases "decodeTemplate parse w artifactPath")
  case (Inl e)
  then have "e = SyntaxError \<or> e = ReadError artifactPath"
    by (auto simp: decodeTemplate_def readFileSync_def JSON_parse_def
        split: option.splits sum.splits)
  with Inl assms show ?thesis by (auto simp: createDotFilesStep_def)
next
  case d: (Inr template)
  show ?thesis
  proof (cases "createDotFile template")
    case (Inl e)
    from createDotFile_error [OF Inl] have "e = TypeError" .
    with Inl d assms show ?thesis by (auto simp: createDotFilesStep_def)
  next
    case (Inr dotFile)
    with d assms show ?thesis by (simp add: createDotFilesStep_def)
  qed
qed

lemma createDotFilesStep_keeps:
  assumes "createDotFilesStep parse artifactPath w = (result, w')"
  shows "console w' = console w \<and> faults w' = faults w"
  using createDotFilesStep_cases [OF assms]
  by (auto dest!: writeFileSync_cases)

lemma createDotFiles_keeps:
  "createDotFiles parse artifacts w = (result, w') \<Longrightarrow>
   console w' = console w \<and> faults w' = faults w"
proof (induction artifacts arbitrary: w)
  case Nil
  then show ?case by simp
next
  case (Cons a artifacts)
  obtain r w'' where st: "createDotFilesStep parse a w = (r, w'')"
    by (cases "createDotFilesStep parse a w")
  note k = createDotFilesStep_keeps [OF st]
  show ?case
  proof (cases r)
    case None
    with st Cons.prems have "createDotFiles parse artifacts w'' = (result, w')" by simp
    from Cons.IH [OF this] k show ?thesis by simp
  next
    case (Some e)
    with st Cons.prems have "w' = w''" by simp
    with k show ?thesis by simp
  qed
qed

lemma createDotFilesStep_decode_fails:
  "decodeTemplate parse w artifactPath = Inl e \<Longrightarrow>
   createDotFilesStep parse artifactPath w = (Some e, w)"
  by (simp add: createDotFilesStep_def)

lemma createDotFilesStep_writes:
  "decodeTemplate parse w artifactPath = Inr template \<Longrightarrow> createDotFile template = Inr dotFile \<Longrightarrow>
   createDotFilesStep parse artifactPath w = writeFileSync w (artifactPath @ ''.dot'') dotFile"
  by (simp add: createDotFilesStep_def)

lemma createDotFilesStep_changed:
  assumes "createDotFilesStep parse a w = (result, w')" and "files w' p \<noteq> files w p"
  shows "p = a @ ''.dot''
         \<and> (\<exists>template dotFile content. createDotFile template = Inr dotFile
               \<and> files w' p = Some content \<and> prefix content dotFile
               \<and> (content = dotFile \<and> result = None \<or> result = Some (WriteError p)))"
proof -
  from createDotFilesStep_cases [OF assms(1)] assms(2)
  obtain template dotFile where cr: "createDotFile template = Inr dotFile"
    and wr: "writeFileSync w (a @ ''.dot'') dotFile = (result, w')" by auto
  from writeFileSync_cases [OF wr] assms(2)
  have p: "p = a @ ''.dot''" by (auto split: if_splits)
  from writeFileSync_cases [OF wr] assms(2) p
  have "(result = None \<and> files w' p = Some dotFile)
        \<or> (\<exists>n. result = Some (WriteError p) \<and> files w' p = Some (take n dotFile))"
    by auto
  then have "\<exists>content. files w' p = Some content \<and> prefix content dotFile
               \<and> (content = dotFile \<and> result = None \<or> result = Some (WriteError p))"
    by (auto simp: take_is_prefix)
  with cr p show ?thesis by blast
qed

lemma createDotFiles_changed:
  "createDotFiles parse artifacts w = (result, w') \<Longrightarrow> files w' p \<noteq> files w p \<Longrightarrow>
   (\<exists>artifactPath \<in> set artifacts. p = artifactPath @ ''.dot'')
   \<and> (\<exists>template dotFile content. createDotFile template = Inr dotFile
         \<and> files w' p = Some content \<and> prefix content dotFile
         \<and> (content = dotFile \<or> result = Some (WriteError p)))"
proof (induction artifacts arbitrary: w)
  case Nil
  then show ?case by simp
next
  case (Cons a artifacts)
  obtain r w'' where st: "createDotFilesStep parse a w = (r, w'')"
    by (cases "createDotFilesStep parse a w")
  show ?case
  proof (cases r)
    case (Some e)
    with st Cons.prems(1) have eq: "result = Some e" "w' = w''" by simp_all
    from Cons.prems(2) eq have "files w'' p \<noteq> files w p" by simp
    from createDotFilesStep_changed [OF st this] Some eq show ?thesis by auto
  next
    case None
    with st Cons.prems(1) have rest: "createDotFiles parse artifacts w'' = (result, w')" by simp
    show ?thesis
    proof (cases "files w' p = files w'' p")
      case False
      from Cons.IH [OF rest False] show ?thesis by auto
    next
      case True
      with Cons.prems(2) have "files w'' p \<noteq> files w p" by simp
      from createDotFilesStep_changed [OF st this] None True show ?thesis by auto
    qed
  qed
qed

lemma brokenFirst_b_alone:
  "createDotFiles sampleParse [''b.json''] brokenFirst =
     (None, brokenFirst\<lparr>files := (files brokenFirst)(''b.json.dot'' \<mapsto> dotHeader @ dotFooter)\<rparr>)"
  by (simp add: createDotFilesStep_def decodeTemplate_def readFileSync_def JSON_parse_def
      writeFileSync_def brokenFirst_def sampleParse_def emptyTemplateText_def
      exampleTemplateText_def createDotFile_def)

lemma brokenFirst_a_decode:
  "decodeTemplate sampleParse
     (brokenFirst\<lparr>files := (files brokenFirst)(''b.json.dot'' \<mapsto> dotHeader @ dotFooter)\<rparr>)
     ''a.json'' = Inl SyntaxError"
  by (simp add: decodeTemplate_def readFileSync_def JSON_parse_def brokenFirst_def
      sampleParse_def emptyTemplateText_def exampleTemplateText_def emptyFileIndexText_def
      stackIndexText_def)

text \<open>
  Claim C1 says that a manifest that cannot be read or parsed is caught, logged and skipped,
  and that the other artifacts of the batch are still rendered. \<open>createDotFiles\<close> has no
  \<^verbatim>\<open>try\<close>: with a first file that is no JSON and a second file that renders on its own,
  the batch ends with the SyntaxError of the first, nothing is printed to the console and
  the document of the second is not written.
\<close>

theorem decode_failure_counterexample:
  "decodeTemplate sampleParse brokenFirst ''a.json'' = Inl SyntaxError
   \<and> createDotFiles sampleParse [''b.json''] brokenFirst =
       (None, brokenFirst\<lparr>files := (files brokenFirst)(''b.json.dot'' \<mapsto> dotHeader @ dotFooter)\<rparr>)
   \<and> createDotFiles sampleParse [''a.json'', ''b.json''] brokenFirst = (Some SyntaxError, brokenFirst)
   \<and> files (snd (createDotFiles sampleParse [''a.json'', ''b.json''] brokenFirst)) ''b.json.dot'' = None
   \<and> console (snd (createDotFiles sampleParse [''a.json'', ''b.json''] brokenFirst)) = []"
proof -
  have d: "decodeTemplate sampleParse brokenFirst ''a.json'' = Inl SyntaxError"
    by (simp add: decodeTemplate_def readFileSync_def JSON_parse_def brokenFirst_def
      sampleParse_def emptyTemplateText_def exampleTemplateText_def emptyFileIndexText_def
      stackIndexText_def)
  then have "createDotFiles sampleParse [''a.json'', ''b.json''] brokenFirst = (Some SyntaxError, brokenFirst)"
    by (simp add: createDotFilesStep_def)
  moreover have "files brokenFirst ''b.json.dot'' = None" "console brokenFirst = []"
    by (simp_all add: brokenFirst_def)
  ultimately show ?thesis using d brokenFirst_b_alone by simp
qed

text \<open>
  Claim C1, as amended. When the artifacts before it have been rendered and the manifest of
  an artifact cannot be read or parsed, \<open>createDotFiles\<close> ends with that error (a read error
  or a SyntaxError): it is not caught and nothing is printed to the console. The documents of
  the artifacts before it have been written; the artifact and those after it are not
  rendered.
\<close>

theorem decode_failure_aborts_batch:
  assumes "createDotFiles parse before w = (None, w1)"
    and "decodeTemplate parse w1 artifactPath = Inl e"
  shows "createDotFiles parse (before @ artifactPath # rest) w = (Some e, w1)
         \<and> console w1 = console w
         \<and> (e = SyntaxError \<or> e = ReadError artifactPath)"
proof -
  from createDotFilesStep_decode_fails [OF assms(2)] assms(1)
  have "createDotFiles parse (before @ artifactPath # rest) w = (Some e, w1)"
    by (simp add: createDotFiles_append)
  moreover from createDotFiles_keeps [OF assms(1)] have "console w1 = console w" by simp
  moreover from assms(2) have "e = SyntaxError \<or> e = ReadError artifactPath"
    by (auto simp: decodeTemplate_def readFileSync_def JSON_parse_def split: option.splits sum.splits)
  ultimately show ?thesis by simp
qed

theorem decode_failure_aborts_batch_witness:
  "createDotFiles sampleParse [''b.json''] brokenFirst =
     (None, brokenFirst\<lparr>files := (files brokenFirst)(''b.json.dot'' \<mapsto> dotHeader @ dotFooter)\<rparr>)
   \<and> decodeTemplate sampleParse
        (brokenFirst\<lparr>files := (files brokenFirst)(''b.json.dot'' \<mapsto> dotHeader @ dotFooter)\<rparr>)
        ''a.json'' = Inl SyntaxError
   \<and> createDotFiles sampleParse ([''b.json''] @ ''a.json'' # [''b.json'']) brokenFirst =
       (Some SyntaxError,
        brokenFirst\<lparr>files := (files brokenFirst)(''b.json.dot'' \<mapsto> dotHeader @ dotFooter)\<rparr>)
   \<and> console (brokenFirst\<lparr>files := (files brokenFirst)(''b.json.dot'' \<mapsto> dotHeader @ dotFooter)\<rparr>)
       = console brokenFirst"
  using decode_failure_aborts_batch [OF brokenFirst_b_alone brokenFirst_a_decode, of "[''b.json'']"]
    brokenFirst_b_alone brokenFirst_a_decode
  by simp


lemma secondWriteFails_a_alone:
  "createDotFiles sampleParse [''a.json''] (secondWriteFails f) =
     (None, (secondWriteFails f)
        \<lparr>files := (files (secondWriteFails f))(''a.json.dot'' \<mapsto> dotHeader @ dotFooter)\<rparr>)"
  by (simp add: secondWriteFails_first_step)

lemma secondWriteFails_b_decode:
  "decodeTemplate sampleParse
     ((secondWriteFails f)
        \<lparr>files := (files (secondWriteFails f))(''a.json.dot'' \<mapsto> dotHeader @ dotFooter)\<rparr>)
     ''b.json'' = Inr exampleTemplate"
  by (simp add: decodeTemplate_def readFileSync_def JSON_parse_def secondWriteFails_def
      sampleParse_def emptyTemplateText_def exampleTemplateText_def)

lemma secondWriteFails_fault:
  "faults (secondWriteFails f) (''b.json'' @ ''.dot'') = Some f"
  by (simp add: secondWriteFails_def)

lemma no_short_document: "createDotFile template \<noteq> Inr ''digraph Re''"
proof
  assume "createDotFile template = Inr ''digraph Re''"
  then obtain ds where "''digraph Re'' = showDecls ds"
    unfolding createDotFile_Inr by (elim exE conjE)
  then have "length ''digraph Re'' = length (showDecls ds)" by (rule arg_cong)
  then show False by (simp add: showDecls_def dotHeader_def)
qed

lemma secondWriteFails_batch:
  "createDotFiles sampleParse [''a.json'', ''b.json''] (secondWriteFails (WriteFailsAfter 10)) =
     (Some (WriteError ''b.json.dot''),
      (secondWriteFails (WriteFailsAfter 10))
        \<lparr>files := (files (secondWriteFails (WriteFailsAfter 10)))
           (''a.json.dot'' \<mapsto> dotHeader @ dotFooter, ''b.json.dot'' \<mapsto> ''digraph Re'')\<rparr>)"
proof -
  let ?w = "secondWriteFails (WriteFailsAfter 10)"
  let ?w1 = "?w\<lparr>files := (files ?w)(''a.json.dot'' \<mapsto> dotHeader @ dotFooter)\<rparr>"
  have st: "createDotFilesStep sampleParse ''b.json'' ?w1 =
          (Some (WriteError ''b.json.dot''), ?w1\<lparr>files := (files ?w1)(''b.json.dot'' \<mapsto> ''digraph Re'')\<rparr>)"
    using createDotFilesStep_writes [OF secondWriteFails_b_decode exampleTemplate_text, of "WriteFailsAfter 10"]
    by (simp add: writeFileSync_def secondWriteFails_def dotHeader_def)
  show ?thesis
    by (simp add: secondWriteFails_first_step st)
qed


text \<open>
  Claim C9 says that no partly written output file is produced, the document being composed
  before the write. The document is composed before the write, but the write is one call of
  \<^verbatim>\<open>fs.writeFileSync\<close> on the output path itself, and a write that fails after the file
  was opened leaves what had reached the file: here the first ten code units of the
  document, in a file that did not exist before, and no document is that short.
\<close>

theorem partial_file_counterexample:
  "files (secondWriteFails (WriteFailsAfter 10)) ''b.json.dot'' = None
   \<and> fst (createDotFiles sampleParse [''a.json'', ''b.json''] (secondWriteFails (WriteFailsAfter 10)))
       = Some (WriteError ''b.json.dot'')
   \<and> files (snd (createDotFiles sampleParse [''a.json'', ''b.json'']
                   (secondWriteFails (WriteFailsAfter 10)))) ''b.json.dot''
       = Some ''digraph Re''
   \<and> (\<forall>template. createDotFile template \<noteq> Inr ''digraph Re'')"
proof -
  have f0: "files (secondWriteFails (WriteFailsAfter 10)) ''b.json.dot'' = None"
    by (simp add: secondWriteFails_def)
  have f1: "fst (createDotFiles sampleParse [''a.json'', ''b.json''] (secondWriteFails (WriteFailsAfter 10)))
       = Some (WriteError ''b.json.dot'')"
    by (simp only: secondWriteFails_batch fst_conv)
  have f2: "files (snd (createDotFiles sampleParse [''a.json'', ''b.json'']
                   (secondWriteFails (WriteFailsAfter 10)))) ''b.json.dot''
       = Some ''digraph Re''"
    by (simp only: secondWriteFails_batch snd_conv) simp
  from f0 f1 f2 no_short_document show ?thesis by (intro conjI allI)
qed

text \<open>
  Claim C9, as amended. An exception of \<^verbatim>\<open>fs.writeFileSync\<close> is not caught: when the
  artifacts before have been rendered and the write of an artifact's document fails,
  \<open>createDotFiles\<close> ends with that error, nothing is printed to the console and the remaining
  artifacts are not processed. The document is composed before the one write of the callback:
  every file that \<open>createDotFiles\<close> has changed is the \<^verbatim>\<open>.dot\<close> file of one of the artifacts
  and holds a beginning of a document that \<open>createDotFile\<close> returned, the whole document
  unless the batch ended with the failure of the write to that file; and a callback that
  raises before its write leaves the files as they were. A write that fails leaves the
  output file as it was when the open failed, and otherwise with the beginning of the
  document that was written, which may be empty.
\<close>

theorem write_failure_propagates:
  "(createDotFiles parse before w = (None, w1)
      \<and> decodeTemplate parse w1 artifactPath = Inr template
      \<and> createDotFile template = Inr dotFile
      \<and> faults w (artifactPath @ ''.dot'') = Some f \<longrightarrow>
      (\<exists>w2. createDotFiles parse (before @ artifactPath # rest) w
               = (Some (WriteError (artifactPath @ ''.dot'')), w2)
           \<and> console w2 = console w
           \<and> w2 = (case f of
                      OpenFails \<Rightarrow> w1
                    | WriteFailsAfter n \<Rightarrow>
                        w1\<lparr>files := (files w1)(artifactPath @ ''.dot'' \<mapsto> take n dotFile)\<rparr>)))
   \<and> (createDotFiles parse artifacts w = (result, w') \<and> files w' p \<noteq> files w p \<longrightarrow>
        (\<exists>artifactPath \<in> set artifacts. p = artifactPath @ ''.dot'')
        \<and> (\<exists>template dotFile content. createDotFile template = Inr dotFile
              \<and> files w' p = Some content \<and> prefix content dotFile
              \<and> (content = dotFile \<or> result = Some (WriteError p))))
   \<and> (createDotFilesStep parse artifactPath w = (Some e, w')
        \<and> e \<noteq> WriteError (artifactPath @ ''.dot'') \<longrightarrow> w' = w)"
proof (intro conjI impI)
  assume a: "createDotFiles parse before w = (None, w1)
      \<and> decodeTemplate parse w1 artifactPath = Inr template
      \<and> createDotFile template = Inr dotFile
      \<and> faults w (artifactPath @ ''.dot'') = Some f"
  from a have b: "createDotFiles parse before w = (None, w1)" by (rule conjunct1)
  from a have d: "decodeTemplate parse w1 artifactPath = Inr template"
    by (rule conjunct2 [THEN conjunct1])
  from a have c: "createDotFile template = Inr dotFile"
    by (rule conjunct2 [THEN conjunct2, THEN conjunct1])
  from a have r: "faults w (artifactPath @ ''.dot'') = Some f"
    by (rule conjunct2 [THEN conjunct2, THEN conjunct2])
  from createDotFiles_keeps [OF b] have k: "console w1 = console w" "faults w1 = faults w"
    by simp_all
  from r k(2) have r1: "faults w1 (artifactPath @ ''.dot'') = Some f" by simp
  let ?w2 = "case f of
               OpenFails \<Rightarrow> w1
             | WriteFailsAfter n \<Rightarrow>
                 w1\<lparr>files := (files w1)(artifactPath @ ''.dot'' \<mapsto> take n dotFile)\<rparr>"
  from r1 have wr: "writeFileSync w1 (artifactPath @ ''.dot'') dotFile
                  = (Some (WriteError (artifactPath @ ''.dot'')), ?w2)"
    by (cases f) (simp_all add: writeFileSync_def)
  with createDotFilesStep_writes [OF d c] b
  have run: "createDotFiles parse (before @ artifactPath # rest) w
          = (Some (WriteError (artifactPath @ ''.dot'')), ?w2)"
    by (simp add: createDotFiles_append)
  have cw: "console ?w2 = console w" using k(1) by (cases f) simp_all
  from run cw show "\<exists>w2. createDotFiles parse (before @ artifactPath # rest) w
               = (Some (WriteError (artifactPath @ ''.dot'')), w2)
           \<and> console w2 = console w
           \<and> w2 = (case f of
                      OpenFails \<Rightarrow> w1
                    | WriteFailsAfter n \<Rightarrow>
                        w1\<lparr>files := (files w1)(artifactPath @ ''.dot'' \<mapsto> take n dotFile)\<rparr>)"
    by (intro exI [of _ ?w2] conjI refl)
next
  assume a: "createDotFiles parse artifacts w = (result, w') \<and> files w' p \<noteq> files w p"
  from createDotFiles_changed [OF conjunct1 [OF a] conjunct2 [OF a]]
  show "\<exists>artifactPath \<in> set artifacts. p = artifactPath @ ''.dot''"
    and "\<exists>template dotFile content. createDotFile template = Inr dotFile
              \<and> files w' p = Some content \<and> prefix content dotFile
              \<and> (content = dotFile \<or> result = Some (WriteError p))"
    by (rule conjunct1, rule conjunct2)
next
  assume a: "createDotFilesStep parse artifactPath w = (Some e, w')
        \<and> e \<noteq> WriteError (artifactPath @ ''.dot'')"
  from createDotFilesStep_cases [OF conjunct1 [OF a]] conjunct2 [OF a]
  show "w' = w" by (auto dest!: writeFileSync_cases)
qed

theorem write_failure_propagates_witness:
  \<open>createDotFiles sampleParse [''a.json''] (secondWriteFails (WriteFailsAfter 10)) =
     (None, (secondWriteFails (WriteFailsAfter 10))
        \<lparr>files := (files (secondWriteFails (WriteFailsAfter 10)))
           (''a.json.dot'' \<mapsto> dotHeader @ dotFooter)\<rparr>)
   \<and> decodeTemplate sampleParse
        ((secondWriteFails (WriteFailsAfter 10))
           \<lparr>files := (files (secondWriteFails (WriteFailsAfter 10)))
              (''a.json.dot'' \<mapsto> dotHeader @ dotFooter)\<rparr>)
        ''b.json'' = Inr exampleTemplate
   \<and> createDotFile exampleTemplate =
       Inr (dotHeader @ ''  "A" [label="X"];\<newline>  "A" -> "B";\<newline>  "B" [label="Y"];\<newline>'' @ dotFooter)
   \<and> faults (secondWriteFails (WriteFailsAfter 10)) (''b.json'' @ ''.dot'') = Some (WriteFailsAfter 10)
   \<and> (\<exists>w2. createDotFiles sampleParse ([''a.json''] @ ''b.json'' # [''a.json''])
               (secondWriteFails (WriteFailsAfter 10))
             = (Some (WriteError (''b.json'' @ ''.dot'')), w2)
          \<and> console w2 = console (secondWriteFails (WriteFailsAfter 10))
          \<and> files w2 ''b.json.dot'' = Some ''digraph Re'')
   \<and> createDotFiles sampleParse [''a.json'', ''b.json''] (secondWriteFails (WriteFailsAfter 10)) =
       (Some (WriteError ''b.json.dot''),
        (secondWriteFails (WriteFailsAfter 10))
          \<lparr>files := (files (secondWriteFails (WriteFailsAfter 10)))
             (''a.json.dot'' \<mapsto> dotHeader @ dotFooter, ''b.json.dot'' \<mapsto> ''digraph Re'')\<rparr>)
   \<and> files ((secondWriteFails (WriteFailsAfter 10))
          \<lparr>files := (files (secondWriteFails (WriteFailsAfter 10)))
             (''a.json.dot'' \<mapsto> dotHeader @ dotFooter, ''b.json.dot'' \<mapsto> ''digraph Re'')\<rparr>)
         ''a.json.dot''
       \<noteq> files (secondWriteFails (WriteFailsAfter 10)) ''a.json.dot''
   \<and> (\<exists>template dotFile content. createDotFile template = Inr dotFile
         \<and> files ((secondWriteFails (WriteFailsAfter 10))
              \<lparr>files := (files (secondWriteFails (WriteFailsAfter 10)))
                 (''a.json.dot'' \<mapsto> dotHeader @ dotFooter, ''b.json.dot'' \<mapsto> ''digraph Re'')\<rparr>)
              ''a.json.dot'' = Some content
         \<and> prefix content dotFile)
   \<and> createDotFilesStep sampleParse ''a.json'' brokenFirst = (Some SyntaxError, brokenFirst)
   \<and> SyntaxError \<noteq> WriteError (''a.json'' @ ''.dot'')\<close>
proof -
  let ?w = "secondWriteFails (WriteFailsAfter 10)"
  let ?w1 = "?w\<lparr>files := (files ?w)(''a.json.dot'' \<mapsto> dotHeader @ dotFooter)\<rparr>"
  let ?w3 = "?w\<lparr>files := (files ?w)
             (''a.json.dot'' \<mapsto> dotHeader @ dotFooter, ''b.json.dot'' \<mapsto> ''digraph Re'')\<rparr>"
  note h1 = secondWriteFails_a_alone [of "WriteFailsAfter 10"]
  note h2 = secondWriteFails_b_decode [of "WriteFailsAfter 10"]
  note h4 = secondWriteFails_fault [of "WriteFailsAfter 10"]
  from write_failure_propagates
    [where parse = sampleParse and before = "[''a.json'']" and w = ?w and ?w1.0 = ?w1
       and artifactPath = "''b.json''" and template = exampleTemplate and f = "WriteFailsAfter 10"
       and rest = "[''a.json'']", THEN conjunct1, THEN mp,
     OF conjI [OF h1 conjI [OF h2 conjI [OF exampleTemplate_text h4]]]]
  obtain w2 where
    run: "createDotFiles sampleParse ([''a.json''] @ ''b.json'' # [''a.json'']) ?w
            = (Some (WriteError (''b.json'' @ ''.dot'')), w2)"
    and co: "console w2 = console ?w"
    and w2: \<open>w2 = (case WriteFailsAfter 10 of
                      OpenFails \<Rightarrow> ?w1
                    | WriteFailsAfter n \<Rightarrow>
                        ?w1\<lparr>files := (files ?w1)(''b.json'' @ ''.dot'' \<mapsto>
                          take n (dotHeader @ ''  "A" [label="X"];\<newline>  "A" -> "B";\<newline>  "B" [label="Y"];\<newline>'' @ dotFooter))\<rparr>)\<close>
    by (elim exE conjE)
  from w2 have "files w2 ''b.json.dot'' = Some ''digraph Re''"
    by (simp add: dotHeader_def)
  with run co have c1: "\<exists>w2. createDotFiles sampleParse ([''a.json''] @ ''b.json'' # [''a.json'']) ?w
             = (Some (WriteError (''b.json'' @ ''.dot'')), w2)
          \<and> console w2 = console ?w
          \<and> files w2 ''b.json.dot'' = Some ''digraph Re''"
    by (intro exI conjI)
  have ch: "files ?w3 ''a.json.dot'' \<noteq> files ?w ''a.json.dot''"
    by (simp add: secondWriteFails_def)
  from write_failure_propagates
    [where parse = sampleParse and artifacts = "[''a.json'', ''b.json'']" and w = ?w
       and result = "Some (WriteError ''b.json.dot'')" and w' = ?w3 and p = "''a.json.dot''",
     THEN conjunct2, THEN conjunct1, THEN mp, OF conjI [OF secondWriteFails_batch ch]]
  obtain template dotFile content where "createDotFile template = Inr dotFile"
    "files ?w3 ''a.json.dot'' = Some content" "prefix content dotFile"
    by (elim exE conjE)
  then have c2: "\<exists>template dotFile content. createDotFile template = Inr dotFile
         \<and> files ?w3 ''a.json.dot'' = Some content \<and> prefix content dotFile"
    by (intro exI conjI)
  have st: "createDotFilesStep sampleParse ''a.json'' brokenFirst = (Some SyntaxError, brokenFirst)"
    by (simp add: createDotFilesStep_def decodeTemplate_def readFileSync_def JSON_parse_def
      brokenFirst_def sampleParse_def emptyTemplateText_def exampleTemplateText_def
      emptyFileIndexText_def stackIndexText_def)
  have ne: "SyntaxError \<noteq> WriteError (''a.json'' @ ''.dot'')" by simp
  from h1 h2 exampleTemplate_text h4 c1 secondWriteFails_batch ch c2 st ne
  show ?thesis by (intro conjI)
qed


section \<open>The artifacts of the index\<close>

lemma isTemplateArtifact_True:
  "isTemplateArtifact artifact = Inr True \<longleftrightarrow>
     js_get artifact ''type'' = Inr (Some (JStr ''cdk:asset-manifest''))
     \<and> (\<exists>properties. js_get artifact ''properties'' = Inr (Some properties)
           \<and> js_truthy (Some properties)
           \<and> (\<exists>file. js_get properties ''file'' = Inr file \<and> js_truthy file))"
proof (cases "js_get artifact ''type''")
  case (Inl e)
  then show ?thesis by (simp add: isTemplateArtifact_def)
next
  case ty: (Inr ty)
  show ?thesis
  proof (cases "ty = Some (JStr ''cdk:asset-manifest'')")
    case False
    with ty show ?thesis by (simp add: isTemplateArtifact_def)
  next
    case True
    show ?thesis
    proof (cases "js_get artifact ''properties''")
      case (Inl e)
      with ty True show ?thesis by (simp add: isTemplateArtifact_def)
    next
      case pr: (Inr properties)
      show ?thesis
      proof (cases properties)
        case None
        with ty True pr show ?thesis by (simp add: isTemplateArtifact_def)
      next
        case (Some p)
        show ?thesis
        proof (cases "js_truthy (Some p)")
          case False
          with ty True pr Some show ?thesis by (simp add: isTemplateArtifact_def)
        next
          case tr: True
          then have "p \<noteq> JNull" by auto
          then obtain fl where f: "js_get p ''file'' = Inr fl"
            by (cases "js_get p ''file''") (auto simp: js_get_Inl)
          with ty True pr Some tr show ?thesis by (simp add: isTemplateArtifact_def)
        qed
      qed
    qed
  qed
qed

lemma isTemplateArtifact_Inl: "isTemplateArtifact artifact = Inl e \<Longrightarrow> artifact = JNull"
  by (auto simp: isTemplateArtifact_def js_get_Inl split: sum.splits option.splits if_splits)

lemma isTemplateArtifact_total:
  "artifact \<noteq> JNull \<Longrightarrow> \<exists>b. isTemplateArtifact artifact = Inr b"
  by (cases "isTemplateArtifact artifact") (auto dest: isTemplateArtifact_Inl)

lemma templatePath_string:
  "artifactFile artifact = Inr (Some (JStr file)) \<Longrightarrow>
   templatePath join artifact = Inr (join (cdkDir join) (replaceAssets (fileName artifact)))"
  by (simp add: templatePath_def fileName_def)

lemma collectArtifacts_shaped:
  assumes "\<And>entry. entry \<in> set entries \<Longrightarrow> snd entry \<noteq> JNull"
    and "\<And>entry. entry \<in> set entries \<Longrightarrow> isTemplateArtifact (snd entry) = Inr True \<Longrightarrow>
           \<exists>file. artifactFile (snd entry) = Inr (Some (JStr file))"
  shows "collectArtifacts join artifacts entries =
           Inr (artifacts @ map (\<lambda>entry. join (cdkDir join) (replaceAssets (fileName (snd entry))))
                  (filter (\<lambda>entry. isTemplateArtifact (snd entry) = Inr True) entries))"
  using assms
proof (induction entries arbitrary: artifacts)
  case Nil
  then show ?case by simp
next
  case (Cons entry entries)
  obtain key artifact where entry: "entry = (key, artifact)" by (cases entry)
  from Cons.prems(1) [of entry] have nn: "artifact \<noteq> JNull" by (simp add: entry)
  from isTemplateArtifact_total [OF nn] obtain b where b: "isTemplateArtifact artifact = Inr b" ..
  have IH: "collectArtifacts join acc entries =
           Inr (acc @ map (\<lambda>entry. join (cdkDir join) (replaceAssets (fileName (snd entry))))
                  (filter (\<lambda>entry. isTemplateArtifact (snd entry) = Inr True) entries))" for acc
    using Cons.IH [of acc] Cons.prems by simp
  show ?case
  proof (cases b)
    case False
    with b IH show ?thesis by (simp add: entry)
  next
    case True
    with b Cons.prems(2) [of entry] obtain fl where
      "artifactFile artifact = Inr (Some (JStr fl))" by (auto simp: entry)
    from templatePath_string [OF this, of join] b True IH show ?thesis by (simp add: entry)
  qed
qed

lemma getArtifacts_raised:
  "readArtifacts join parse filePath w = Inl e \<Longrightarrow>
   getArtifactsFromManifest join parse filePath w = ([], w\<lparr>console := console w @ [e]\<rparr>)"
  by (simp add: getArtifactsFromManifest_def)


lemma sample_paths:
  "cdkDir sampleJoin = ''cdk.out''" "manifestPath sampleJoin = ''cdk.out/manifest.json''"
  by (simp_all add: cdkDir_def manifestPath_def sampleJoin_def)

lemma sampleParse_stackIndex: "sampleParse stackIndexText = Some stackIndex"
  by (simp add: sampleParse_def emptyTemplateText_def exampleTemplateText_def
      emptyFileIndexText_def stackIndexText_def)

lemma sampleParse_emptyFileIndex: "sampleParse emptyFileIndexText = Some emptyFileIndex"
  by (simp add: sampleParse_def emptyTemplateText_def exampleTemplateText_def
      emptyFileIndexText_def stackIndexText_def)

lemma stackIndex_entries:
  "artifactEntries stackIndex =
     [(''Tree'', JObj [(''type'', JStr ''cdk:tree''),
                       (''properties'', JObj [(''file'', JStr ''tree.json'')])]),
      (''S.assets'', JObj [(''type'', JStr ''cdk:asset-manifest''),
                           (''properties'', JObj [(''file'', JStr ''S.assets.json'')])])]"
  by (simp add: artifactEntries_def stackIndex_def)

lemma replaceAssets_example: "replaceAssets ''S.assets.json'' = ''S.template.json''"
  by (simp add: prefix_def)


lemma stackIndex_selected:
  "filter (\<lambda>entry. isTemplateArtifact (snd entry) = Inr True) (artifactEntries stackIndex) =
     [(''S.assets'', JObj [(''type'', JStr ''cdk:asset-manifest''),
                           (''properties'', JObj [(''file'', JStr ''S.assets.json'')])])]"
  by (simp add: stackIndex_entries isTemplateArtifact_def)

lemma stackIndex_shaped:
  "\<forall>entry \<in> set (artifactEntries stackIndex). snd entry \<noteq> JNull
     \<and> (isTemplateArtifact (snd entry) = Inr True \<longrightarrow>
          (\<exists>file. artifactFile (snd entry) = Inr (Some (JStr file))))"
  by (simp add: stackIndex_entries artifactFile_def)

text \<open>
  Claim C10 says that \<open>getArtifactsFromManifest\<close> returns exactly the artifacts of type
  \<^verbatim>\<open>cdk:asset-manifest\<close> that carry a \<^verbatim>\<open>properties.file\<close> field. The test of the loop is
  the truth value of \<^verbatim>\<open>artifact.properties.file\<close>, not its presence: an index whose only
  artifact has that type and the file \<^verbatim>\<open>""\<close> is read and parsed without error, and the
  result is the empty list.
\<close>

theorem empty_file_name_counterexample:
  "files (indexOnly emptyFileIndexText) (manifestPath sampleJoin) = Some emptyFileIndexText
   \<and> sampleParse emptyFileIndexText = Some emptyFileIndex
   \<and> artifactEntries emptyFileIndex =
       [(''a'', JObj [(''type'', JStr ''cdk:asset-manifest''),
                      (''properties'', JObj [(''file'', JStr [])])])]
   \<and> js_get (JObj [(''type'', JStr ''cdk:asset-manifest''),
                    (''properties'', JObj [(''file'', JStr [])])]) ''type''
       = Inr (Some (JStr ''cdk:asset-manifest''))
   \<and> artifactFile (JObj [(''type'', JStr ''cdk:asset-manifest''),
                          (''properties'', JObj [(''file'', JStr [])])])
       = Inr (Some (JStr []))
   \<and> getArtifactsFromManifest sampleJoin sampleParse (manifestPath sampleJoin)
         (indexOnly emptyFileIndexText)
       = ([], indexOnly emptyFileIndexText)"
proof -
  have f: "files (indexOnly emptyFileIndexText) (manifestPath sampleJoin) = Some emptyFileIndexText"
    by (simp add: indexOnly_def sample_paths)
  have e: "artifactEntries emptyFileIndex =
       [(''a'', JObj [(''type'', JStr ''cdk:asset-manifest''),
                      (''properties'', JObj [(''file'', JStr [])])])]"
    by (simp add: artifactEntries_def emptyFileIndex_def)
  have af: "artifactFile (JObj [(''type'', JStr ''cdk:asset-manifest''),
                          (''properties'', JObj [(''file'', JStr [])])])
       = Inr (Some (JStr []))"
    by (simp add: artifactFile_def)
  have "readArtifacts sampleJoin sampleParse (manifestPath sampleJoin) (indexOnly emptyFileIndexText)
          = Inr []"
    using f sampleParse_emptyFileIndex
    by (simp add: readArtifacts_def readFileSync_def JSON_parse_def emptyFileIndex_def
        isTemplateArtifact_def)
  then have g: "getArtifactsFromManifest sampleJoin sampleParse (manifestPath sampleJoin)
         (indexOnly emptyFileIndexText) = ([], indexOnly emptyFileIndexText)"
    by (simp add: getArtifactsFromManifest_def)
  from f sampleParse_emptyFileIndex e af g show ?thesis by simp
qed

text \<open>
  Claim C10, as amended. When the index cannot be read, or is no JSON, or the scan of its
  artifacts raises, the error is printed to the console and the result is the empty list; when
  the index itself cannot be read the program then renders nothing and ends without an
  exception. When the index is read and parsed, is not \<^verbatim>\<open>null\<close>, has no \<^verbatim>\<open>null\<close>
  artifact, and the file of every selected artifact is a string, the result is, in the order
  of the index, the path \<^verbatim>\<open>path.join(cdkDir, file.replace(/assets/g, 'template'))\<close> of every
  selected artifact, and nothing is printed. An artifact is selected when its \<^verbatim>\<open>type\<close> is
  \<^verbatim>\<open>cdk:asset-manifest\<close> and its \<^verbatim>\<open>properties\<close> and its \<^verbatim>\<open>properties.file\<close> are true in a
  condition (so not when the file is absent, \<^verbatim>\<open>null\<close>, \<^verbatim>\<open>false\<close>, \<^verbatim>\<open>0\<close> or the empty
  string).
\<close>

theorem getArtifactsFromManifest_selects:
  "(files w filePath = None \<longrightarrow>
      getArtifactsFromManifest join parse filePath w
        = ([], w\<lparr>console := console w @ [ReadError filePath]\<rparr>))
   \<and> (files w filePath = Some manifestData \<and> parse manifestData = None \<longrightarrow>
        getArtifactsFromManifest join parse filePath w
          = ([], w\<lparr>console := console w @ [SyntaxError]\<rparr>))
   \<and> (readArtifacts join parse filePath w = Inl e \<longrightarrow>
        getArtifactsFromManifest join parse filePath w = ([], w\<lparr>console := console w @ [e]\<rparr>))
   \<and> (files w filePath = Some manifestData \<and> parse manifestData = Some manifest
        \<and> manifest \<noteq> JNull
        \<and> (\<forall>entry \<in> set (artifactEntries manifest). snd entry \<noteq> JNull
              \<and> (isTemplateArtifact (snd entry) = Inr True \<longrightarrow>
                   (\<exists>file. artifactFile (snd entry) = Inr (Some (JStr file))))) \<longrightarrow>
        getArtifactsFromManifest join parse filePath w
          = (map (\<lambda>entry. join (cdkDir join) (replaceAssets (fileName (snd entry))))
               (filter (\<lambda>entry. isTemplateArtifact (snd entry) = Inr True)
                  (artifactEntries manifest)), w))
   \<and> (isTemplateArtifact artifact = Inr True \<longleftrightarrow>
        js_get artifact ''type'' = Inr (Some (JStr ''cdk:asset-manifest''))
        \<and> (\<exists>properties. js_get artifact ''properties'' = Inr (Some properties)
              \<and> js_truthy (Some properties)
              \<and> (\<exists>file. js_get properties ''file'' = Inr file \<and> js_truthy file)))
   \<and> (files w (manifestPath join) = None \<longrightarrow>
        program join parse w
          = (None, w\<lparr>console := console w @ [ReadError (manifestPath join)]\<rparr>))"
proof (intro conjI impI)
  assume "files w filePath = None"
  then show "getArtifactsFromManifest join parse filePath w
        = ([], w\<lparr>console := console w @ [ReadError filePath]\<rparr>)"
    by (simp add: getArtifactsFromManifest_def readArtifacts_def readFileSync_def)
next
  assume "files w filePath = Some manifestData \<and> parse manifestData = None"
  then show "getArtifactsFromManifest join parse filePath w
          = ([], w\<lparr>console := console w @ [SyntaxError]\<rparr>)"
    by (simp add: getArtifactsFromManifest_def readArtifacts_def readFileSync_def JSON_parse_def)
next
  assume "readArtifacts join parse filePath w = Inl e"
  then show "getArtifactsFromManifest join parse filePath w = ([], w\<lparr>console := console w @ [e]\<rparr>)"
    by (rule getArtifacts_raised)
next
  assume a: "files w filePath = Some manifestData \<and> parse manifestData = Some manifest
        \<and> manifest \<noteq> JNull
        \<and> (\<forall>entry \<in> set (artifactEntries manifest). snd entry \<noteq> JNull
              \<and> (isTemplateArtifact (snd entry) = Inr True \<longrightarrow>
                   (\<exists>file. artifactFile (snd entry) = Inr (Some (JStr file)))))"
  from a have rd: "files w filePath = Some manifestData" by (rule conjunct1)
  from a have pa: "parse manifestData = Some manifest" by (rule conjunct2 [THEN conjunct1])
  from a have nn: "manifest \<noteq> JNull" by (rule conjunct2 [THEN conjunct2, THEN conjunct1])
  from a have sh: "\<forall>entry \<in> set (artifactEntries manifest). snd entry \<noteq> JNull
              \<and> (isTemplateArtifact (snd entry) = Inr True \<longrightarrow>
                   (\<exists>file. artifactFile (snd entry) = Inr (Some (JStr file))))"
    by (rule conjunct2 [THEN conjunct2, THEN conjunct2])
  from nn obtain arts where ar: "js_get manifest ''artifacts'' = Inr arts"
    by (cases "js_get manifest ''artifacts''") (auto simp: js_get_Inl)
  then have en: "artifactEntries manifest = for_in arts" by (simp add: artifactEntries_def)
  have "collectArtifacts join [] (artifactEntries manifest) =
          Inr ([] @ map (\<lambda>entry. join (cdkDir join) (replaceAssets (fileName (snd entry))))
                 (filter (\<lambda>entry. isTemplateArtifact (snd entry) = Inr True)
                    (artifactEntries manifest)))"
  proof (rule collectArtifacts_shaped)
    fix entry assume "entry \<in> set (artifactEntries manifest)"
    with sh show "snd entry \<noteq> JNull" by blast
  next
    fix entry
    assume "entry \<in> set (artifactEntries manifest)" "isTemplateArtifact (snd entry) = Inr True"
    with sh show "\<exists>file. artifactFile (snd entry) = Inr (Some (JStr file))" by blast
  qed
  with rd pa ar en
  show "getArtifactsFromManifest join parse filePath w
          = (map (\<lambda>entry. join (cdkDir join) (replaceAssets (fileName (snd entry))))
               (filter (\<lambda>entry. isTemplateArtifact (snd entry) = Inr True)
                  (artifactEntries manifest)), w)"
    by (simp add: getArtifactsFromManifest_def readArtifacts_def readFileSync_def JSON_parse_def)
next
  show "isTemplateArtifact artifact = Inr True \<longleftrightarrow>
        js_get artifact ''type'' = Inr (Some (JStr ''cdk:asset-manifest''))
        \<and> (\<exists>properties. js_get artifact ''properties'' = Inr (Some properties)
              \<and> js_truthy (Some properties)
              \<and> (\<exists>file. js_get properties ''file'' = Inr file \<and> js_truthy file))"
    by (rule isTemplateArtifact_True)
next
  assume "files w (manifestPath join) = None"
  then show "program join parse w
          = (None, w\<lparr>console := console w @ [ReadError (manifestPath join)]\<rparr>)"
    by (simp add: program_def getArtifactsFromManifest_def readArtifacts_def readFileSync_def)
qed

theorem getArtifactsFromManifest_selects_witness:
  "files (indexOnly stackIndexText) ''cdk.out/manifest.json'' = Some stackIndexText
   \<and> sampleParse stackIndexText = Some stackIndex
   \<and> stackIndex \<noteq> JNull
   \<and> map fst (artifactEntries stackIndex) = [''Tree'', ''S.assets'']
   \<and> getArtifactsFromManifest sampleJoin sampleParse ''cdk.out/manifest.json'' (indexOnly stackIndexText)
       = ([''cdk.out/S.template.json''], indexOnly stackIndexText)
   \<and> files (indexOnly ''oops'') ''cdk.out/manifest.json'' = Some ''oops''
   \<and> sampleParse ''oops'' = None
   \<and> getArtifactsFromManifest sampleJoin sampleParse ''cdk.out/manifest.json'' (indexOnly ''oops'')
       = ([], (indexOnly ''oops'')\<lparr>console := console (indexOnly ''oops'') @ [SyntaxError]\<rparr>)
   \<and> files brokenFirst (manifestPath sampleJoin) = None
   \<and> getArtifactsFromManifest sampleJoin sampleParse (manifestPath sampleJoin) brokenFirst
       = ([], brokenFirst\<lparr>console := console brokenFirst @ [ReadError (manifestPath sampleJoin)]\<rparr>)
   \<and> program sampleJoin sampleParse brokenFirst
       = (None, brokenFirst\<lparr>console := console brokenFirst @ [ReadError (manifestPath sampleJoin)]\<rparr>)"
proof -
  have f1: "files (indexOnly stackIndexText) ''cdk.out/manifest.json'' = Some stackIndexText"
    by (simp add: indexOnly_def)
  have n1: "stackIndex \<noteq> JNull" by (simp add: stackIndex_def)
  have k1: "map fst (artifactEntries stackIndex) = [''Tree'', ''S.assets'']"
    by (simp add: stackIndex_entries)
  have fn: "fileName (JObj [(''type'', JStr ''cdk:asset-manifest''),
                           (''properties'', JObj [(''file'', JStr ''S.assets.json'')])])
              = ''S.assets.json''"
    by (simp add: fileName_def artifactFile_def)
  from getArtifactsFromManifest_selects
    [of "indexOnly stackIndexText" "''cdk.out/manifest.json''" sampleJoin sampleParse
        stackIndexText _ stackIndex]
    f1 sampleParse_stackIndex n1 stackIndex_shaped
  have "getArtifactsFromManifest sampleJoin sampleParse ''cdk.out/manifest.json'' (indexOnly stackIndexText)
          = (map (\<lambda>entry. sampleJoin (cdkDir sampleJoin) (replaceAssets (fileName (snd entry))))
               (filter (\<lambda>entry. isTemplateArtifact (snd entry) = Inr True)
                  (artifactEntries stackIndex)), indexOnly stackIndexText)"
    by blast
  then have c1: "getArtifactsFromManifest sampleJoin sampleParse ''cdk.out/manifest.json'' (indexOnly stackIndexText)
       = ([''cdk.out/S.template.json''], indexOnly stackIndexText)"
    by (simp add: stackIndex_selected fn replaceAssets_example sample_paths sampleJoin_def)
  have f2: "files (indexOnly ''oops'') ''cdk.out/manifest.json'' = Some ''oops''"
    by (simp add: indexOnly_def)
  have p2: "sampleParse ''oops'' = None"
    by (simp add: sampleParse_def emptyTemplateText_def exampleTemplateText_def
      emptyFileIndexText_def stackIndexText_def)
  from getArtifactsFromManifest_selects
    [of "indexOnly ''oops''" "''cdk.out/manifest.json''" sampleJoin sampleParse "''oops''"]
    f2 p2
  have c2: "getArtifactsFromManifest sampleJoin sampleParse ''cdk.out/manifest.json'' (indexOnly ''oops'')
       = ([], (indexOnly ''oops'')\<lparr>console := console (indexOnly ''oops'') @ [SyntaxError]\<rparr>)"
    by blast
  have f3: "files brokenFirst (manifestPath sampleJoin) = None"
    by (simp add: brokenFirst_def sample_paths)
  from getArtifactsFromManifest_selects
    [of brokenFirst "manifestPath sampleJoin" sampleJoin sampleParse] f3
  have c3: "getArtifactsFromManifest sampleJoin sampleParse (manifestPath sampleJoin) brokenFirst
       = ([], brokenFirst\<lparr>console := console brokenFirst @ [ReadError (manifestPath sampleJoin)]\<rparr>)"
    and c4: "program sampleJoin sampleParse brokenFirst
       = (None, brokenFirst\<lparr>console := console brokenFirst @ [ReadError (manifestPath sampleJoin)]\<rparr>)"
    by blast+
  from f1 sampleParse_stackIndex n1 k1 c1 f2 p2 c2 f3 c3 c4 show ?thesis by (intro conjI)
qed

end
